theory Spec2Isabelle
  imports Main "HOL-Library.Word"
begin

section \<open>Data model of the block executor\<close>

text \<open>
  Byte slices are lists of bytes; \<open>bytes.Equal\<close> compares contents, so a nil and an
  empty slice are the same list. Go's \<open>int64\<close> and \<open>uint64\<close> are 64-bit words
  (\<open>+\<close> wraps; \<open>sint\<close> reads the signed value), and a conversion between the two
  keeps the bits. A pointer that the code may find nil is an \<open>option\<close>.
\<close>

type_synonym bytes = "8 word list"
type_synonym int64 = "64 word"
type_synonym uint64 = "64 word"

text \<open>\<open>time.Time\<close>: the zero value is not the Unix epoch.\<close>

datatype gotime = TimeZero | TimeUnix int64

text \<open>
  Errors. The three package-level sentinels, the \<open>errors.New\<close> values of \<open>validate\<close>,
  the \<open>fmt.Errorf\<close> values (with the values they format), \<open>External msg\<close> for an
  error handed back by a collaborator (application, mempool, codec, fraud service, event
  bus), known by its message, and the combined error of \<open>multierr.Append\<close>.
\<close>

datatype error =
    ErrFraudProofGenerated
  | ErrEmptyValSetGenerated
  | ErrAddingValidatorToBased
  | ErrBlockVersionMismatch
  | ErrInitialBlockHeightMismatch
  | ErrBlockHeightMismatch
  | ErrAppHashMismatch
  | ErrLastResultsHashMismatch
  | ErrAggregatorsHashMismatch
  | ErrInvalidISRLength nat nat
  | ErrTxResultsLength nat nat
  | ErrBroadcastFraudProof error
  | ErrInValidatorUpdates error
  | ErrNegativeVotingPower
  | ErrUnsupportedPubKey string
  | ErrBeginBlockRequestNil
  | ErrFraudProofGenerationFailed
  | External string
  | ErrMulti "error list"

text \<open>\<open>ErrEmptyValSetGenerated.Error()\<close>\<close>

definition ErrEmptyValSetGenerated_msg :: string where
  "ErrEmptyValSetGenerated_msg = ''applying the validator changes would result in empty set''"

datatype panic = NilPointerDereference | IndexOutOfRange | CommitSizeMismatch

text \<open>A call either returns its results or panics.\<close>

datatype 'a outcome = Returned 'a | Panicked panic

record Version =
  v_Block :: uint64
  v_App :: uint64

record StateVersion =
  sv_Consensus :: Version
  sv_Software :: string

record BaseHeader =
  bh_ChainID :: string
  bh_Height :: uint64
  bh_Time :: uint64

record Header =
  h_Version :: Version
  h_BaseHeader :: BaseHeader
  h_LastHeaderHash :: bytes
  h_LastCommitHash :: bytes
  h_DataHash :: bytes
  h_ConsensusHash :: bytes
  h_AppHash :: bytes
  h_LastResultsHash :: bytes
  h_AggregatorsHash :: bytes
  h_ProposerAddress :: bytes

record Commit =
  c_Signatures :: "bytes list"

record SignedHeader =
  sh_Header :: Header
  sh_Commit :: Commit

text \<open>\<open>RawRootsList\<close> is \<open>None\<close> when the slice is nil.\<close>

record Data =
  d_Txs :: "bytes list"
  d_RawRootsList :: "bytes list option"

record Block =
  b_SignedHeader :: SignedHeader
  b_Data :: Data

record Validator =
  val_Address :: bytes
  val_PubKey :: bytes
  val_VotingPower :: int64
  val_ProposerPriority :: int64

record ValidatorSet =
  vs_Validators :: "Validator list"
  vs_Proposer :: "Validator option"

record BlockParams =
  bp_MaxBytes :: int64
  bp_MaxGas :: int64

record ConsensusParams =
  cp_Block :: BlockParams
  cp_PubKeyTypes :: "string list"

record BlockID =
  bid_Hash :: bytes

text \<open>
  \<open>types.State\<close>, with the fields the executor reads and writes. The validator sets are
  pointers. \<open>AppHash\<close> is a \<open>types.Hash\<close>, a slice (\<open>make(types.Hash, 32)\<close>). The
  heights are \<open>int64\<close>: they are compared with \<open>Header.Height()\<close>, which is compared
  with the \<open>int64\<close> argument of \<open>buildLastCommitInfo\<close>.
\<close>

record State =
  st_Version :: StateVersion
  st_ChainID :: string
  st_InitialHeight :: int64
  st_LastBlockHeight :: int64
  st_LastBlockID :: BlockID
  st_LastBlockTime :: gotime
  st_NextValidators :: "ValidatorSet option"
  st_Validators :: "ValidatorSet option"
  st_LastValidators :: "ValidatorSet option"
  st_LastHeightValidatorsChanged :: int64
  st_ConsensusParams :: ConsensusParams
  st_LastHeightConsensusParamsChanged :: int64
  st_LastResultsHash :: bytes
  st_AppHash :: bytes

record Event =
  ev_Type :: string
  ev_Attributes :: "(string \<times> string) list"

record ExecTxResult =
  tr_Code :: "32 word"
  tr_Data :: bytes
  tr_Log :: string
  tr_Info :: string
  tr_GasWanted :: int64
  tr_GasUsed :: int64
  tr_Events :: "Event list"
  tr_Codespace :: string

record ValidatorUpdate =
  vu_PubKey :: bytes
  vu_Power :: int64

record ResponseBeginBlock =
  rbb_Events :: "Event list"

record ResponseEndBlock =
  reb_ValidatorUpdates :: "ValidatorUpdate list"
  reb_ConsensusParamUpdates :: "ConsensusParams option"
  reb_Events :: "Event list"

record LegacyABCIResponses =
  lr_DeliverTxs :: "ExecTxResult option list"
  lr_EndBlock :: "ResponseEndBlock option"
  lr_BeginBlock :: "ResponseBeginBlock option"


text \<open>
  The consensus-layer types the conversion layer produces: \<open>cmproto.Header\<close>,
  \<open>cmtypes.Commit\<close> with its \<open>CommitSig\<close>s, and \<open>cmtypes.Block\<close> (the fields the
  executor reads).
\<close>

record PBHeader =
  pb_Version :: Version
  pb_ChainID :: string
  pb_Height :: int64
  pb_Time :: gotime
  pb_LastCommitHash :: bytes
  pb_DataHash :: bytes
  pb_ValidatorsHash :: bytes
  pb_NextValidatorsHash :: bytes
  pb_ConsensusHash :: bytes
  pb_AppHash :: bytes
  pb_LastResultsHash :: bytes
  pb_ProposerAddress :: bytes

record CommitSig =
  cs_BlockIDFlag :: "8 word"
  cs_ValidatorAddress :: bytes
  cs_Timestamp :: gotime
  cs_Signature :: bytes

record ABCICommit =
  ac_Height :: int64
  ac_Round :: "32 word"
  ac_BlockID :: BlockID
  ac_Signatures :: "CommitSig list"

record ABCIBlock =
  ab_Header :: PBHeader
  ab_Txs :: "bytes list"
  ab_Evidence :: "bytes list"

text \<open>\<open>cmstate.State\<close> as \<open>state.ToProto\<close> returns it: \<open>ConsensusParams.Validator\<close> is a
  pointer to the \<open>ValidatorParams\<close>, whose only field is \<open>PubKeyTypes\<close>.\<close>

record ProtoState =
  ps_Validator :: "string list option"

section \<open>Collaborators outside the executor\<close>

text \<open>
  The methods of the block, header, commit and validator-set types, and the functions of
  the conversion layer and of the consensus library, live outside the executor's source
  file. They are pure, and the executor takes them as given: a record of functions. A
  function that can fail returns the message of its error on the left. \<open>ToABCIBlock\<close>
  returns a pointer and an error, and the executor reads through the pointer in one place
  before it looks at the error, so both results are kept.
\<close>

record codec =
  Block_ValidateBasic :: "Block \<Rightarrow> string option"
  Block_Hash :: "Block \<Rightarrow> bytes"
  Header_Hash :: "Header \<Rightarrow> bytes"
  Header_Time :: "Header \<Rightarrow> gotime"
  SignedHeader_Hash :: "SignedHeader \<Rightarrow> bytes"
  ValidatorSet_Hash :: "ValidatorSet option \<Rightarrow> bytes"
  Results_Hash :: "ExecTxResult option list \<Rightarrow> bytes"
  UpdateWithChangeSet :: "ValidatorSet \<Rightarrow> Validator list \<Rightarrow> string + ValidatorSet"
  IncrementProposerPriority :: "ValidatorSet \<Rightarrow> 32 word \<Rightarrow> ValidatorSet"
  ToABCIHeaderPB :: "Header \<Rightarrow> string + PBHeader"
  ToABCIBlock :: "Block \<Rightarrow> ABCIBlock option \<times> string option"
  Evidence_ToABCI :: "bytes list \<Rightarrow> bytes list"
  ToABCICommit :: "Commit \<Rightarrow> uint64 \<Rightarrow> bytes \<Rightarrow> ABCICommit"
  ABCICommit_Hash :: "ABCICommit \<Rightarrow> bytes"
  State_ToProto :: "State \<Rightarrow> string + ProtoState"
  PB2TM_ValidatorUpdates :: "ValidatorUpdate list \<Rightarrow> string + Validator list"
  PubKeyFromProto_Type :: "bytes \<Rightarrow> string + string"
  IsValidPubkeyType :: "string list \<Rightarrow> string \<Rightarrow> bool"
  TM2PB_Validator :: "Validator \<Rightarrow> bytes \<times> int64"

text \<open>
  Modelled from the spec: \<open>Header.Height()\<close> is declared with the header type, outside
  the executor's source file; the spec puts the height in the base header, and the
  executor compares the result with \<open>int64\<close> values, so it is the base header's height
  read as an \<open>int64\<close>.
\<close>

definition Header_Height :: "Header \<Rightarrow> int64" where
  "Header_Height h = bh_Height (h_BaseHeader h)"

text \<open>\<open>ValidatorSet.Copy()\<close> of the consensus library makes a deep copy: as a value, the
  set itself. The copy is what \<open>updateState\<close> changes, never the set of the input state.\<close>

definition ValidatorSet_Copy :: "ValidatorSet option \<Rightarrow> ValidatorSet option" where
  "ValidatorSet_Copy vs = vs"

text \<open>The built-in \<open>copy(dst, src)\<close>: the first \<open>min (len dst) (len src)\<close> bytes of
  \<open>dst\<close> are overwritten.\<close>

definition copy_bytes :: "bytes \<Rightarrow> bytes \<Rightarrow> bytes" where
  "copy_bytes dst src = (let n = min (length dst) (length src) in take n src @ drop n dst)"

text \<open>
  Modelled from the spec: the declaration of \<open>types.State\<close> is not in the source; the
  spec gives the last results hash as a 32-byte value, so the field of a fresh \<open>State\<close>
  literal holds 32 zero bytes before \<open>copy\<close> fills it.
\<close>

definition LastResultsHash_zero :: bytes where
  "LastResultsHash_zero = replicate 32 0"

text \<open>\<open>types.State{}\<close>, the zero value.\<close>

definition State_zero :: State where
  "State_zero =
     \<lparr>st_Version = \<lparr>sv_Consensus = \<lparr>v_Block = 0, v_App = 0\<rparr>, sv_Software = []\<rparr>,
      st_ChainID = [],
      st_InitialHeight = 0,
      st_LastBlockHeight = 0,
      st_LastBlockID = \<lparr>bid_Hash = []\<rparr>,
      st_LastBlockTime = TimeZero,
      st_NextValidators = None,
      st_Validators = None,
      st_LastValidators = None,
      st_LastHeightValidatorsChanged = 0,
      st_ConsensusParams = \<lparr>cp_Block = \<lparr>bp_MaxBytes = 0, bp_MaxGas = 0\<rparr>, cp_PubKeyTypes = []\<rparr>,
      st_LastHeightConsensusParamsChanged = 0,
      st_LastResultsHash = LastResultsHash_zero,
      st_AppHash = []\<rparr>"

section \<open>validate\<close>

definition validate :: "codec \<Rightarrow> State \<Rightarrow> Block \<Rightarrow> error option" where
  "validate cd state block =
     (case Block_ValidateBasic cd block of
        Some msg \<Rightarrow> Some (External msg)
      | None \<Rightarrow>
          let header = sh_Header (b_SignedHeader block) in
          if v_App (h_Version header) \<noteq> v_App (sv_Consensus (st_Version state)) \<or>
             v_Block (h_Version header) \<noteq> v_Block (sv_Consensus (st_Version state))
          then Some ErrBlockVersionMismatch
          else if st_LastBlockHeight state \<le>s 0 \<and> Header_Height header \<noteq> st_InitialHeight state
          then Some ErrInitialBlockHeightMismatch
          else if 0 <s st_LastBlockHeight state \<and>
                  Header_Height header \<noteq> st_LastBlockHeight state + 1
          then Some ErrBlockHeightMismatch
          else if h_AppHash header \<noteq> st_AppHash state
          then Some ErrAppHashMismatch
          else if h_LastResultsHash header \<noteq> st_LastResultsHash state
          then Some ErrLastResultsHashMismatch
          else if h_AggregatorsHash header \<noteq> ValidatorSet_Hash cd (st_Validators state)
          then Some ErrAggregatorsHashMismatch
          else None)"

section \<open>updateState\<close>

text \<open>The \<open>State\<close> literal at the end of \<open>updateState\<close> and the \<open>copy\<close> into its
  \<open>LastResultsHash\<close>.\<close>

definition newState ::
  "codec \<Rightarrow> State \<Rightarrow> Block \<Rightarrow> LegacyABCIResponses \<Rightarrow> ValidatorSet \<Rightarrow> int64 \<Rightarrow> State" where
  "newState cd state block abciResponses nValSet lastHeightValSetChanged =
     \<lparr>st_Version = st_Version state,
      st_ChainID = st_ChainID state,
      st_InitialHeight = st_InitialHeight state,
      st_LastBlockHeight = Header_Height (sh_Header (b_SignedHeader block)),
      st_LastBlockID = \<lparr>bid_Hash = Header_Hash cd (sh_Header (b_SignedHeader block))\<rparr>,
      st_LastBlockTime = Header_Time cd (sh_Header (b_SignedHeader block)),
      st_NextValidators = Some nValSet,
      st_Validators = Some nValSet,
      st_LastValidators = ValidatorSet_Copy (st_Validators state),
      st_LastHeightValidatorsChanged = lastHeightValSetChanged,
      st_ConsensusParams = st_ConsensusParams state,
      st_LastHeightConsensusParamsChanged = st_LastHeightConsensusParamsChanged state,
      st_LastResultsHash =
        copy_bytes LastResultsHash_zero (Results_Hash cd (lr_DeliverTxs abciResponses)),
      st_AppHash = replicate 32 0\<rparr>"

text \<open>
  The validator-set part of \<open>updateState\<close> (the \<open>if\<close> over \<open>nValSet\<close>): the set and
  the height of its last change that the new state gets, or the error of an early return.
\<close>

definition nextValSet ::
  "codec \<Rightarrow> ValidatorSet \<Rightarrow> int64 \<Rightarrow> Block \<Rightarrow> Validator list
    \<Rightarrow> error + ValidatorSet \<times> int64" where
  "nextValSet cd nValSet lastHeightValSetChanged block validatorUpdates =
     (if length (vs_Validators nValSet) > 0 then
        (case
           (if length validatorUpdates > 0 then
              (case UpdateWithChangeSet cd nValSet validatorUpdates of
                 Inl msg \<Rightarrow>
                   if msg \<noteq> ErrEmptyValSetGenerated_msg then Inl (External msg)
                   else Inr (\<lparr>vs_Validators = [], vs_Proposer = None\<rparr>,
                             Header_Height (sh_Header (b_SignedHeader block)) + 1 + 1)
               | Inr updated \<Rightarrow>
                   Inr (updated, Header_Height (sh_Header (b_SignedHeader block)) + 1 + 1))
            else Inr (nValSet, lastHeightValSetChanged))
         of
           Inl err \<Rightarrow> Inl err
         | Inr (nValSet', lastHeightValSetChanged') \<Rightarrow>
             if length (vs_Validators nValSet') > 0
             then Inr (IncrementProposerPriority cd nValSet' 1, lastHeightValSetChanged')
             else Inr (nValSet', lastHeightValSetChanged'))
      else if length validatorUpdates > 0 then Inl ErrAddingValidatorToBased
      else Inr (nValSet, lastHeightValSetChanged))"

text \<open>
  \<open>updateState\<close> returns a state and an error as the Go function does: the input state
  beside an error. \<open>nValSet\<close> is the copy of \<open>NextValidators\<close>; reading
  \<open>nValSet.Validators\<close> through a nil pointer panics.
\<close>

definition updateState ::
  "codec \<Rightarrow> State \<Rightarrow> Block \<Rightarrow> LegacyABCIResponses \<Rightarrow> Validator list
    \<Rightarrow> (State \<times> error option) outcome" where
  "updateState cd state block abciResponses validatorUpdates =
     (case ValidatorSet_Copy (st_NextValidators state) of
        None \<Rightarrow> Panicked NilPointerDereference
      | Some nValSet \<Rightarrow>
          (case nextValSet cd nValSet (st_LastHeightValidatorsChanged state) block validatorUpdates of
             Inl err \<Rightarrow> Returned (state, Some err)
           | Inr (nValSet', lastHeightValSetChanged) \<Rightarrow>
               Returned (newState cd state block abciResponses nValSet' lastHeightValSetChanged,
                         None)))"


section \<open>Requests, responses and the effects of the collaborators\<close>

record VoteInfo =
  vi_Validator :: "bytes \<times> int64"
  vi_BlockIdFlag :: "8 word"

record CommitInfo =
  ci_Round :: "32 word"
  ci_Votes :: "VoteInfo list"

record RequestBeginBlock =
  bbq_Hash :: bytes
  bbq_Header :: PBHeader
  bbq_LastCommitInfo :: CommitInfo
  bbq_ByzantineValidators :: "bytes list"

record RequestDeliverTx =
  rd_Tx :: bytes

record RequestEndBlock =
  re_Height :: int64

text \<open>In the fraud-proof request an unset slice or pointer is \<open>None\<close>.\<close>

record RequestGenerateFraudProof =
  gfp_BeginBlockRequest :: RequestBeginBlock
  gfp_DeliverTxRequests :: "RequestDeliverTx list option"
  gfp_EndBlockRequest :: "RequestEndBlock option"

record RequestFinalizeBlock =
  fb_Hash :: bytes
  fb_NextValidatorsHash :: bytes
  fb_ProposerAddress :: bytes
  fb_Height :: int64
  fb_Time :: gotime
  fb_DecidedLastCommit :: CommitInfo
  fb_Misbehavior :: "bytes list"
  fb_Txs :: "bytes list"

record ResponseFinalizeBlock =
  rf_Events :: "Event list"
  rf_TxResults :: "ExecTxResult option list"
  rf_ValidatorUpdates :: "ValidatorUpdate list"
  rf_ConsensusParamUpdates :: "ConsensusParams option"
  rf_AppHash :: bytes

type_synonym FraudProof = bytes

record EventDataNewBlock =
  nb_Block :: ABCIBlock
  nb_ResultFinalizeBlock :: ResponseFinalizeBlock

record EventDataTx =
  tx_Height :: int64
  tx_Index :: "32 word"
  tx_Tx :: bytes
  tx_Result :: ExecTxResult

datatype loglevel = Debug | Info | Error

text \<open>
  Every call the executor makes on a collaborator is written to a trace, with its
  arguments and its reply (the error message on the left, or \<open>Some\<close> message, when the
  call fails). \<open>EvReadIsr i\<close> is not a call: it notes that \<open>currentIsrs[i]\<close> is read.
\<close>

datatype event =
    EvMempoolLock
  | EvMempoolUnlock
  | EvFlushAppConn "string option"
  | EvMempoolUpdate int64 "bytes list" "ExecTxResult option list" int64 int64 "string option"
  | EvReapMaxBytesMaxGas int64 int64 "bytes list"
  | EvSetResponseCallback
  | EvGetAppHash "string + bytes"
  | EvFinalizeBlock RequestFinalizeBlock "string + ResponseFinalizeBlock"
  | EvCommit "string + int64"
  | EvGenerateFraudProof RequestGenerateFraudProof "string + FraudProof option"
  | EvBroadcast FraudProof "string option"
  | EvPublishEventNewBlock EventDataNewBlock "string option"
  | EvPublishEventNewBlockHeader PBHeader "string option"
  | EvPublishEventNewEvidence bytes int64 "string option"
  | EvPublishEventTx EventDataTx "string option"
  | EvNow int64
  | EvLog loglevel string
  | EvReadIsr nat

text \<open>
  The collaborators are stateful: each call takes their state \<open>'w\<close> and returns the reply
  with the new state. \<open>env_Commit\<close> returns the \<open>RetainHeight\<close> of the commit response,
  \<open>env_GenerateFraudProof\<close> the \<open>FraudProof\<close> pointer of its response.
\<close>

record 'w env =
  env_GetAppHash :: "'w \<Rightarrow> (string + bytes) \<times> 'w"
  env_FinalizeBlock :: "RequestFinalizeBlock \<Rightarrow> 'w \<Rightarrow> (string + ResponseFinalizeBlock) \<times> 'w"
  env_Commit :: "'w \<Rightarrow> (string + int64) \<times> 'w"
  env_GenerateFraudProof ::
    "RequestGenerateFraudProof \<Rightarrow> 'w \<Rightarrow> (string + FraudProof option) \<times> 'w"
  env_Broadcast :: "FraudProof \<Rightarrow> 'w \<Rightarrow> string option \<times> 'w"
  env_FlushAppConn :: "'w \<Rightarrow> string option \<times> 'w"
  env_Update ::
    "int64 \<Rightarrow> bytes list \<Rightarrow> ExecTxResult option list \<Rightarrow> int64 \<Rightarrow> int64 \<Rightarrow> 'w
      \<Rightarrow> string option \<times> 'w"
  env_ReapMaxBytesMaxGas :: "int64 \<Rightarrow> int64 \<Rightarrow> 'w \<Rightarrow> bytes list \<times> 'w"
  env_PublishEventNewBlock :: "EventDataNewBlock \<Rightarrow> 'w \<Rightarrow> string option \<times> 'w"
  env_PublishEventNewBlockHeader :: "PBHeader \<Rightarrow> 'w \<Rightarrow> string option \<times> 'w"
  env_PublishEventNewEvidence :: "bytes \<Rightarrow> int64 \<Rightarrow> 'w \<Rightarrow> string option \<times> 'w"
  env_PublishEventTx :: "EventDataTx \<Rightarrow> 'w \<Rightarrow> string option \<times> 'w"
  env_Now :: "'w \<Rightarrow> int64 \<times> 'w"

record 'w world =
  w_state :: 'w
  w_trace :: "event list"

text \<open>\<open>BlockExecutor\<close>. \<open>eventBus\<close> tells whether the event bus pointer is set.\<close>

record 'w BlockExecutor =
  proposerAddress :: bytes
  namespaceID :: bytes
  chainID :: string
  fraudProofsEnabled :: bool
  eventBus :: bool
  collaborators :: "'w env"
  conv :: codec

definition emit :: "event \<Rightarrow> 'w world \<Rightarrow> 'w world" where
  "emit ev w = w\<lparr>w_trace := w_trace w @ [ev]\<rparr>"

text \<open>A call: run the collaborator on its state, note the call and its reply.\<close>

definition call :: "('w \<Rightarrow> 'r \<times> 'w) \<Rightarrow> ('r \<Rightarrow> event) \<Rightarrow> 'w world \<Rightarrow> 'r \<times> 'w world" where
  "call f ev w =
     (case f (w_state w) of (r, s') \<Rightarrow> (r, \<lparr>w_state = s', w_trace = w_trace w @ [ev r]\<rparr>))"

text \<open>\<open>multierr.Append\<close>\<close>

fun errors_of :: "error \<Rightarrow> error list" where
  "errors_of (ErrMulti es) = es"
| "errors_of e = [e]"

fun multierr_Append :: "error option \<Rightarrow> error option \<Rightarrow> error option" where
  "multierr_Append None r = r"
| "multierr_Append (Some l) None = Some l"
| "multierr_Append (Some l) (Some r) = Some (ErrMulti (errors_of l @ errors_of r))"


section \<open>execute\<close>

definition getAppHash :: "'w BlockExecutor \<Rightarrow> 'w world \<Rightarrow> (error + bytes) \<times> 'w world" where
  "getAppHash e w =
     (case call (env_GetAppHash (collaborators e)) EvGetAppHash w of
        (Inl msg, w') \<Rightarrow> (Inl (External msg), w')
      | (Inr appHash, w') \<Rightarrow> (Inr appHash, w'))"

text \<open>\<open>currentIsrs[index]\<close> panics when the index is out of range.\<close>

definition isFraudProofTrigger ::
  "'w BlockExecutor \<Rightarrow> bytes \<Rightarrow> bytes list option \<Rightarrow> nat \<Rightarrow> 'w world \<Rightarrow> bool outcome \<times> 'w world" where
  "isFraudProofTrigger e generatedIsr currentIsrs index w =
     (case currentIsrs of
        None \<Rightarrow> (Returned False, w)
      | Some isrs \<Rightarrow>
          let w' = emit (EvReadIsr index) w in
          if index < length isrs then
            (let stateIsr = isrs ! index in
             if stateIsr \<noteq> generatedIsr then (Returned True, emit (EvLog Debug ''ISR Mismatch'') w')
             else (Returned False, w'))
          else (Panicked IndexOutOfRange, w'))"

definition generateFraudProof ::
  "'w BlockExecutor \<Rightarrow> RequestBeginBlock option \<Rightarrow> RequestDeliverTx list option
    \<Rightarrow> RequestEndBlock option \<Rightarrow> 'w world \<Rightarrow> (error + FraudProof) \<times> 'w world" where
  "generateFraudProof e beginBlockRequest deliverTxRequests endBlockRequest w =
     (case beginBlockRequest of
        None \<Rightarrow> (Inl ErrBeginBlockRequestNil, w)
      | Some bbr \<Rightarrow>
          let generateFraudProofRequest =
                \<lparr>gfp_BeginBlockRequest = bbr,
                 gfp_DeliverTxRequests =
                   (if deliverTxRequests \<noteq> None then deliverTxRequests else None),
                 gfp_EndBlockRequest =
                   (if deliverTxRequests \<noteq> None \<and> endBlockRequest \<noteq> None
                    then endBlockRequest else None)\<rparr>
          in (case call (env_GenerateFraudProof (collaborators e) generateFraudProofRequest)
                     (EvGenerateFraudProof generateFraudProofRequest) w of
                (Inl msg, w') \<Rightarrow> (Inl (External msg), w')
              | (Inr None, w') \<Rightarrow> (Inl ErrFraudProofGenerationFailed, w')
              | (Inr (Some fraudProof), w') \<Rightarrow> (Inr fraudProof, w')))"

text \<open>
  The closure \<open>genAndGossipFraudProofIfNeeded\<close> of \<open>execute\<close>. The variables it captures
  and changes, \<open>ISRs\<close> and \<open>currentIsrIndex\<close>, are passed in and returned; \<open>currentIsrs\<close>
  is only read.
\<close>

definition genAndGossipFraudProofIfNeeded ::
  "'w BlockExecutor \<Rightarrow> bytes list option \<Rightarrow> RequestBeginBlock \<Rightarrow> RequestDeliverTx list option
    \<Rightarrow> RequestEndBlock option \<Rightarrow> bytes list \<times> nat \<Rightarrow> 'w world
    \<Rightarrow> (error + bytes list \<times> nat) outcome \<times> 'w world" where
  "genAndGossipFraudProofIfNeeded e currentIsrs beginBlockRequest deliverTxRequests
       endBlockRequest vars w =
     (case vars of (ISRs, currentIsrIndex) \<Rightarrow>
        if \<not> fraudProofsEnabled e then (Returned (Inr (ISRs, currentIsrIndex)), w)
        else
          (case getAppHash e w of
             (Inl err, w1) \<Rightarrow> (Returned (Inl err), w1)
           | (Inr isr, w1) \<Rightarrow>
               (case isFraudProofTrigger e isr currentIsrs currentIsrIndex w1 of
                  (Panicked p, w2) \<Rightarrow> (Panicked p, w2)
                | (Returned True, w2) \<Rightarrow>
                    (case generateFraudProof e (Some beginBlockRequest) deliverTxRequests
                            endBlockRequest
                            (emit (EvLog Info ''found fraud occurrence, generating a fraud proof...'') w2) of
                       (Inl err, w3) \<Rightarrow> (Returned (Inl err), w3)
                     | (Inr fraudProof, w3) \<Rightarrow>
                         (case call (env_Broadcast (collaborators e) fraudProof)
                                 (EvBroadcast fraudProof) w3 of
                            (Some msg, w4) \<Rightarrow>
                              (Returned (Inl (ErrBroadcastFraudProof (External msg))), w4)
                          | (None, w4) \<Rightarrow> (Returned (Inl ErrFraudProofGenerated), w4)))
                | (Returned False, w2) \<Rightarrow>
                    (Returned (Inr (ISRs @ [isr], currentIsrIndex + 1)), w2))))"

text \<open>The \<open>for\<close> loop of \<open>execute\<close> over \<open>block.Data.Txs\<close>; \<open>deliverTxRequests\<close> grows by
  one request each round.\<close>

fun deliverTxsLoop ::
  "'w BlockExecutor \<Rightarrow> bytes list option \<Rightarrow> RequestBeginBlock \<Rightarrow> bytes list
    \<Rightarrow> RequestDeliverTx list \<Rightarrow> bytes list \<times> nat \<Rightarrow> 'w world
    \<Rightarrow> (error + RequestDeliverTx list \<times> bytes list \<times> nat) outcome \<times> 'w world" where
  "deliverTxsLoop e currentIsrs beginBlockRequest [] deliverTxRequests vars w =
     (Returned (Inr (deliverTxRequests, vars)), w)"
| "deliverTxsLoop e currentIsrs beginBlockRequest (tx # txs) deliverTxRequests vars w =
     (let deliverTxRequests' = deliverTxRequests @ [\<lparr>rd_Tx = tx\<rparr>] in
      (case genAndGossipFraudProofIfNeeded e currentIsrs beginBlockRequest
              (Some deliverTxRequests') None vars w of
         (Panicked p, w') \<Rightarrow> (Panicked p, w')
       | (Returned (Inl err), w') \<Rightarrow> (Returned (Inl err), w')
       | (Returned (Inr vars'), w') \<Rightarrow>
           deliverTxsLoop e currentIsrs beginBlockRequest txs deliverTxRequests' vars' w'))"

text \<open>\<open>buildLastCommitInfo\<close>: reading the validators through a nil set panics, and so does
  a commit whose size is not the size of the set.\<close>

definition buildLastCommitInfo ::
  "codec \<Rightarrow> Block \<Rightarrow> ValidatorSet option \<Rightarrow> int64 \<Rightarrow> CommitInfo outcome" where
  "buildLastCommitInfo cd block lastValSet initialHeight =
     (if Header_Height (sh_Header (b_SignedHeader block)) = initialHeight
      then Returned \<lparr>ci_Round = 0, ci_Votes = []\<rparr>
      else
        let abciCommit =
              ToABCICommit cd (sh_Commit (b_SignedHeader block))
                (bh_Height (h_BaseHeader (sh_Header (b_SignedHeader block))))
                (SignedHeader_Hash cd (b_SignedHeader block));
            commitSize = length (ac_Signatures abciCommit)
        in (case lastValSet of
             None \<Rightarrow> Panicked NilPointerDereference
           | Some vals \<Rightarrow>
               let valSetLen = length (vs_Validators vals) in
               if commitSize \<noteq> valSetLen then Panicked CommitSizeMismatch
               else Returned
                 \<lparr>ci_Round = ac_Round abciCommit,
                  ci_Votes =
                    map (\<lambda>(val, commitSig).
                           \<lparr>vi_Validator = TM2PB_Validator cd val,
                            vi_BlockIdFlag = cs_BlockIDFlag commitSig\<rparr>)
                      (zip (vs_Validators vals) (ac_Signatures abciCommit))\<rparr>))"


text \<open>
  The second half of \<open>execute\<close>, from the capture after BeginBlock to the return: the
  three uses of the closure, the loop between them, and the write of the captured roots
  into a block that came without any.
\<close>

definition executeCaptures ::
  "'w BlockExecutor \<Rightarrow> Block \<Rightarrow> RequestBeginBlock \<Rightarrow> ResponseFinalizeBlock
    \<Rightarrow> LegacyABCIResponses \<Rightarrow> bytes list \<times> nat \<Rightarrow> 'w world
    \<Rightarrow> (error + LegacyABCIResponses \<times> Block) outcome \<times> 'w world" where
  "executeCaptures e block beginBlockRequest finalizeBlockResponse abciResponses vars w =
     (let currentIsrs = d_RawRootsList (b_Data block) in
      case genAndGossipFraudProofIfNeeded e currentIsrs beginBlockRequest None None vars w of
        (Panicked p, w1) \<Rightarrow> (Panicked p, w1)
      | (Returned (Inl err), w1) \<Rightarrow> (Returned (Inl err), w1)
      | (Returned (Inr vars1), w1) \<Rightarrow>
          (case deliverTxsLoop e currentIsrs beginBlockRequest (d_Txs (b_Data block)) [] vars1 w1 of
             (Panicked p, w2) \<Rightarrow> (Panicked p, w2)
           | (Returned (Inl err), w2) \<Rightarrow> (Returned (Inl err), w2)
           | (Returned (Inr (deliverTxRequests, vars2)), w2) \<Rightarrow>
               let endBlockRequest =
                     \<lparr>re_Height = Header_Height (sh_Header (b_SignedHeader block))\<rparr>;
                   abciResponses' =
                     abciResponses
                       \<lparr>lr_EndBlock :=
                          Some \<lparr>reb_ValidatorUpdates = rf_ValidatorUpdates finalizeBlockResponse,
                                reb_ConsensusParamUpdates =
                                  rf_ConsensusParamUpdates finalizeBlockResponse,
                                reb_Events = rf_Events finalizeBlockResponse\<rparr>\<rparr>
               in
               (case genAndGossipFraudProofIfNeeded e currentIsrs beginBlockRequest
                       (Some deliverTxRequests) (Some endBlockRequest) vars2 w2 of
                  (Panicked p, w3) \<Rightarrow> (Panicked p, w3)
                | (Returned (Inl err), w3) \<Rightarrow> (Returned (Inl err), w3)
                | (Returned (Inr (ISRs, currentIsrIndex)), w3) \<Rightarrow>
                    if fraudProofsEnabled e \<and> d_RawRootsList (b_Data block) = None
                    then (Returned
                            (Inr (abciResponses',
                                  block\<lparr>b_Data := (b_Data block)\<lparr>d_RawRootsList := Some ISRs\<rparr>\<rparr>)),
                          w3)
                    else (Returned (Inr (abciResponses', block)), w3))))"

text \<open>
  The middle of \<open>execute\<close>: the requests are built, \<open>FinalizeBlock\<close> is called and the
  number of its results is checked. The response callback set before was never run: the
  executor sends no DeliverTx, so the slots of \<open>DeliverTxs\<close> stay nil.
\<close>

definition executeFinalize ::
  "'w BlockExecutor \<Rightarrow> State \<Rightarrow> Block \<Rightarrow> LegacyABCIResponses \<Rightarrow> bytes list \<times> nat
    \<Rightarrow> 'w world \<Rightarrow> (error + LegacyABCIResponses \<times> Block) outcome \<times> 'w world" where
  "executeFinalize e state block abciResponses vars w =
     (let hash = Block_Hash (conv e) block in
      case ToABCIHeaderPB (conv e) (sh_Header (b_SignedHeader block)) of
        Inl msg \<Rightarrow> (Returned (Inl (External msg)), w)
      | Inr abciHeader \<Rightarrow>
          let beginBlockRequest =
                \<lparr>bbq_Hash = hash,
                 bbq_Header =
                   abciHeader
                     \<lparr>pb_ChainID := chainID e,
                      pb_ValidatorsHash := ValidatorSet_Hash (conv e) (st_Validators state)\<rparr>,
                 bbq_LastCommitInfo = \<lparr>ci_Round = 0, ci_Votes = []\<rparr>,
                 bbq_ByzantineValidators = []\<rparr>
          in
          (case buildLastCommitInfo (conv e) block (st_Validators state) (st_InitialHeight state) of
             Panicked p \<Rightarrow> (Panicked p, w)
           | Returned commitInfo \<Rightarrow>
               (case ToABCIBlock (conv e) block of
                  (_, Some msg) \<Rightarrow> (Returned (Inl (External msg)), w)
                | (None, None) \<Rightarrow> (Panicked NilPointerDereference, w)
                | (Some abciBlock, None) \<Rightarrow>
                    let request =
                          \<lparr>fb_Hash = Block_Hash (conv e) block,
                           fb_NextValidatorsHash = pb_NextValidatorsHash (ab_Header abciBlock),
                           fb_ProposerAddress = pb_ProposerAddress (ab_Header abciBlock),
                           fb_Height = pb_Height (ab_Header abciBlock),
                           fb_Time = pb_Time (ab_Header abciBlock),
                           fb_DecidedLastCommit = commitInfo,
                           fb_Misbehavior = Evidence_ToABCI (conv e) (ab_Evidence abciBlock),
                           fb_Txs = ab_Txs abciBlock\<rparr>
                    in
                    (case call (env_FinalizeBlock (collaborators e) request)
                            (EvFinalizeBlock request) w of
                       (Inl msg, w1) \<Rightarrow>
                         (Returned (Inl (External msg)),
                          emit (EvLog Error ''error in proxyAppConn.FinalizeBlock'') w1)
                     | (Inr finalizeBlockResponse, w1) \<Rightarrow>
                         let w2 = emit (EvLog Info ''finalized block'') w1 in
                         if length (ab_Txs abciBlock) \<noteq> length (rf_TxResults finalizeBlockResponse)
                         then (Returned
                                 (Inl (ErrTxResultsLength (length (d_Txs (b_Data block)))
                                         (length (rf_TxResults finalizeBlockResponse)))),
                               w2)
                         else
                           executeCaptures e block beginBlockRequest finalizeBlockResponse
                             (abciResponses
                                \<lparr>lr_BeginBlock :=
                                   Some \<lparr>rbb_Events = rf_Events finalizeBlockResponse\<rparr>\<rparr>)
                             vars (emit (EvLog Info ''executed block'') w2)))))"

text \<open>\<open>execute\<close> returns the responses and the block, whose roots it may have filled; an
  error comes with no responses.\<close>

definition execute ::
  "'w BlockExecutor \<Rightarrow> State \<Rightarrow> Block \<Rightarrow> 'w world
    \<Rightarrow> (error + LegacyABCIResponses \<times> Block) outcome \<times> 'w world" where
  "execute e state block w =
     (let abciResponses =
            \<lparr>lr_DeliverTxs = replicate (length (d_Txs (b_Data block))) None,
             lr_EndBlock = None, lr_BeginBlock = None\<rparr>;
          currentIsrs = d_RawRootsList (b_Data block);
          expectedLength = length (d_Txs (b_Data block)) + 3
      in
      if fraudProofsEnabled e \<and> currentIsrs \<noteq> None \<and> length (the currentIsrs) \<noteq> expectedLength
      then (Returned (Inl (ErrInvalidISRLength (length (the currentIsrs)) expectedLength)), w)
      else
        let w1 = emit EvSetResponseCallback w in
        if fraudProofsEnabled e then
          (case getAppHash e w1 of
             (Inl err, w2) \<Rightarrow> (Returned (Inl err), w2)
           | (Inr isr, w2) \<Rightarrow> executeFinalize e state block abciResponses ([isr], 1) w2)
        else executeFinalize e state block abciResponses ([], 0) w1)"


section \<open>ApplyBlock\<close>

text \<open>\<open>validateValidatorUpdates\<close>; \<open>params.PubKeyTypes\<close> reads through the pointer to the
  validator parameters.\<close>

fun validateValidatorUpdates ::
  "codec \<Rightarrow> ValidatorUpdate list \<Rightarrow> string list option \<Rightarrow> error option outcome" where
  "validateValidatorUpdates cd [] params = Returned None"
| "validateValidatorUpdates cd (valUpdate # abciUpdates) params =
     (if vu_Power valUpdate <s 0 then Returned (Some ErrNegativeVotingPower)
      else if vu_Power valUpdate = 0 then validateValidatorUpdates cd abciUpdates params
      else
        (case PubKeyFromProto_Type cd (vu_PubKey valUpdate) of
           Inl msg \<Rightarrow> Returned (Some (External msg))
         | Inr pkType \<Rightarrow>
             (case params of
                None \<Rightarrow> Panicked NilPointerDereference
              | Some pubKeyTypes \<Rightarrow>
                  if \<not> IsValidPubkeyType cd pubKeyTypes pkType
                  then Returned (Some (ErrUnsupportedPubKey pkType))
                  else validateValidatorUpdates cd abciUpdates params)))"

text \<open>
  \<open>ApplyBlock\<close> returns the state, the responses (nil beside an error) and the error, and
  with them the block, which \<open>execute\<close> may have changed through the pointer.
\<close>

definition ApplyBlock ::
  "'w BlockExecutor \<Rightarrow> State \<Rightarrow> Block \<Rightarrow> 'w world
    \<Rightarrow> (State \<times> LegacyABCIResponses option \<times> error option) outcome \<times> Block \<times> 'w world" where
  "ApplyBlock e state block w =
     (case validate (conv e) state block of
        Some err \<Rightarrow> (Returned (State_zero, None, Some err), block, w)
      | None \<Rightarrow>
          (case execute e state block w of
             (Panicked p, w1) \<Rightarrow> (Panicked p, block, w1)
           | (Returned (Inl err), w1) \<Rightarrow> (Returned (State_zero, None, Some err), block, w1)
           | (Returned (Inr (resp, block1)), w1) \<Rightarrow>
               (case lr_EndBlock resp of
                  None \<Rightarrow> (Panicked NilPointerDereference, block1, w1)
                | Some endBlock \<Rightarrow>
                    let abciValUpdates = reb_ValidatorUpdates endBlock in
                    (case State_ToProto (conv e) state of
                       Inl msg \<Rightarrow> (Returned (State_zero, None, Some (External msg)), block1, w1)
                     | Inr protoState \<Rightarrow>
                         (case validateValidatorUpdates (conv e) abciValUpdates
                                 (ps_Validator protoState) of
                            Panicked p \<Rightarrow> (Panicked p, block1, w1)
                          | Returned (Some err) \<Rightarrow>
                              (Returned (state, None, Some (ErrInValidatorUpdates err)), block1, w1)
                          | Returned None \<Rightarrow>
                              (case PB2TM_ValidatorUpdates (conv e) abciValUpdates of
                                 Inl msg \<Rightarrow>
                                   (Returned (state, None, Some (External msg)), block1, w1)
                               | Inr validatorUpdates \<Rightarrow>
                                   let w2 = (if length validatorUpdates > 0
                                             then emit (EvLog Debug ''updates to validators'') w1
                                             else w1);
                                       w3 = (if bp_MaxBytes (cp_Block (st_ConsensusParams state)) = 0
                                             then emit (EvLog Error ''maxBytes=0'') w2
                                             else w2)
                                   in
                                   (case updateState (conv e) state block1 resp validatorUpdates of
                                      Panicked p \<Rightarrow> (Panicked p, block1, w3)
                                    | Returned (_, Some err) \<Rightarrow>
                                        (Returned (State_zero, None, Some err), block1, w3)
                                    | Returned (state', None) \<Rightarrow>
                                        (Returned (state', Some resp, None), block1, w3))))))))"

section \<open>Commit\<close>

definition toRollkitTxs :: "bytes list \<Rightarrow> bytes list" where
  "toRollkitTxs txs = map (\<lambda>tx. tx) txs"

definition fromRollkitTxs :: "bytes list \<Rightarrow> bytes list" where
  "fromRollkitTxs rollkitTxs = map (\<lambda>tx. tx) rollkitTxs"

text \<open>\<open>commit\<close>: the deferred \<open>Unlock\<close> runs at every return.\<close>

definition commit ::
  "'w BlockExecutor \<Rightarrow> State \<Rightarrow> Block \<Rightarrow> ExecTxResult option list \<Rightarrow> 'w world
    \<Rightarrow> (bytes \<times> uint64 \<times> error option) \<times> 'w world" where
  "commit e state block deliverTxs w =
     (let w0 = emit EvMempoolLock w in
      case call (env_FlushAppConn (collaborators e)) EvFlushAppConn w0 of
        (Some msg, w1) \<Rightarrow> (([], 0, Some (External msg)), emit EvMempoolUnlock w1)
      | (None, w1) \<Rightarrow>
          (case call (env_Commit (collaborators e)) EvCommit w1 of
             (Inl msg, w2) \<Rightarrow> (([], 0, Some (External msg)), emit EvMempoolUnlock w2)
           | (Inr retainHeight, w2) \<Rightarrow>
               (case call (env_GetAppHash (collaborators e)) EvGetAppHash w2 of
                  (Inl msg, w3) \<Rightarrow> (([], 0, Some (External msg)), emit EvMempoolUnlock w3)
                | (Inr appHash, w3) \<Rightarrow>
                    let maxBytes = bp_MaxBytes (cp_Block (st_ConsensusParams state));
                        maxGas = bp_MaxGas (cp_Block (st_ConsensusParams state));
                        height = Header_Height (sh_Header (b_SignedHeader block));
                        txs = fromRollkitTxs (d_Txs (b_Data block))
                    in
                    (case call (env_Update (collaborators e) height txs deliverTxs maxBytes maxGas)
                            (EvMempoolUpdate height txs deliverTxs maxBytes maxGas) w3 of
                       (Some msg, w4) \<Rightarrow> (([], 0, Some (External msg)), emit EvMempoolUnlock w4)
                     | (None, w4) \<Rightarrow>
                         ((appHash, retainHeight, None), emit EvMempoolUnlock w4)))))"


text \<open>The two loops of \<open>publishEvents\<close>, over the evidence and over the results.
  \<open>abciBlock.Data.Txs[i]\<close> and \<open>*dtx\<close> panic on a short list and on a nil result.\<close>

fun publishEvidenceLoop ::
  "'w BlockExecutor \<Rightarrow> int64 \<Rightarrow> bytes list \<Rightarrow> error option \<Rightarrow> 'w world
    \<Rightarrow> error option \<times> 'w world" where
  "publishEvidenceLoop e height [] err w = (err, w)"
| "publishEvidenceLoop e height (ev # evs) err w =
     (case call (env_PublishEventNewEvidence (collaborators e) ev height)
             (EvPublishEventNewEvidence ev height) w of
        (r, w') \<Rightarrow>
          publishEvidenceLoop e height evs (multierr_Append err (map_option External r)) w')"

fun publishTxLoop ::
  "'w BlockExecutor \<Rightarrow> int64 \<Rightarrow> bytes list \<Rightarrow> nat \<Rightarrow> ExecTxResult option list \<Rightarrow> error option
    \<Rightarrow> 'w world \<Rightarrow> error option outcome \<times> 'w world" where
  "publishTxLoop e height txs i [] err w = (Returned err, w)"
| "publishTxLoop e height txs i (dtx # dtxs) err w =
     (if \<not> i < length txs then (Panicked IndexOutOfRange, w)
      else
        (case dtx of
           None \<Rightarrow> (Panicked NilPointerDereference, w)
         | Some result \<Rightarrow>
             let d = \<lparr>tx_Height = height, tx_Index = of_nat i, tx_Tx = txs ! i,
                      tx_Result = result\<rparr>
             in
             (case call (env_PublishEventTx (collaborators e) d) (EvPublishEventTx d) w of
                (r, w') \<Rightarrow>
                  publishTxLoop e height txs (i + 1) dtxs
                    (multierr_Append err (map_option External r)) w')))"

text \<open>\<open>publishEvents\<close>. The validators hash is written through the block pointer that
  \<open>ToABCIBlock\<close> returned before the error is looked at.\<close>

definition publishEvents ::
  "'w BlockExecutor \<Rightarrow> LegacyABCIResponses \<Rightarrow> Block \<Rightarrow> State \<Rightarrow> 'w world
    \<Rightarrow> error option outcome \<times> 'w world" where
  "publishEvents e resp block state w =
     (if \<not> eventBus e then (Returned None, w)
      else
        (case ToABCIBlock (conv e) block of
           (None, _) \<Rightarrow> (Panicked NilPointerDereference, w)
         | (Some abciBlock0, Some msg) \<Rightarrow> (Returned (Some (External msg)), w)
         | (Some abciBlock0, None) \<Rightarrow>
             let abciBlock =
                   abciBlock0
                     \<lparr>ab_Header :=
                        (ab_Header abciBlock0)
                          \<lparr>pb_ValidatorsHash := ValidatorSet_Hash (conv e) (st_Validators state)\<rparr>\<rparr>
             in
             (case (lr_EndBlock resp, lr_BeginBlock resp) of
                (None, _) \<Rightarrow> (Panicked NilPointerDereference, w)
              | (Some endBlock, None) \<Rightarrow> (Panicked NilPointerDereference, w)
              | (Some endBlock, Some beginBlock) \<Rightarrow>
                  let d = \<lparr>nb_Block = abciBlock,
                           nb_ResultFinalizeBlock =
                             \<lparr>rf_Events = rbb_Events beginBlock @ reb_Events endBlock,
                              rf_TxResults = lr_DeliverTxs resp,
                              rf_ValidatorUpdates = reb_ValidatorUpdates endBlock,
                              rf_ConsensusParamUpdates = reb_ConsensusParamUpdates endBlock,
                              rf_AppHash = st_AppHash state\<rparr>\<rparr>
                  in
                  (case call (env_PublishEventNewBlock (collaborators e) d)
                          (EvPublishEventNewBlock d) w of
                     (r1, w1) \<Rightarrow>
                       (case call (env_PublishEventNewBlockHeader (collaborators e)
                                     (ab_Header abciBlock))
                               (EvPublishEventNewBlockHeader (ab_Header abciBlock)) w1 of
                          (r2, w2) \<Rightarrow>
                            (case publishEvidenceLoop e
                                    (Header_Height (sh_Header (b_SignedHeader block)))
                                    (ab_Evidence abciBlock)
                                    (multierr_Append (multierr_Append None (map_option External r1))
                                       (map_option External r2))
                                    w2 of
                               (err, w3) \<Rightarrow>
                                 publishTxLoop e
                                   (Header_Height (sh_Header (b_SignedHeader block)))
                                   (ab_Txs abciBlock) 0 (lr_DeliverTxs resp) err w3))))))"

text \<open>\<open>Commit\<close>. The state is the function's own copy; the hash written into it reaches
  the events that are published.\<close>

definition Commit ::
  "'w BlockExecutor \<Rightarrow> State \<Rightarrow> Block \<Rightarrow> LegacyABCIResponses \<Rightarrow> 'w world
    \<Rightarrow> (bytes \<times> uint64 \<times> error option) outcome \<times> 'w world" where
  "Commit e state block resp w =
     (case commit e state block (lr_DeliverTxs resp) w of
        ((_, _, Some err), w1) \<Rightarrow> (Returned ([], 0, Some err), w1)
      | ((appHash, retainHeight, None), w1) \<Rightarrow>
          (case publishEvents e resp block (state\<lparr>st_AppHash := appHash\<rparr>) w1 of
             (Panicked p, w2) \<Rightarrow> (Panicked p, w2)
           | (Returned (Some err), w2) \<Rightarrow>
               (Returned (appHash, retainHeight, None),
                emit (EvLog Error ''failed to fire block events'') w2)
           | (Returned None, w2) \<Rightarrow> (Returned (appHash, retainHeight, None), w2)))"

section \<open>CreateBlock\<close>

text \<open>\<open>getLastCommitHash\<close>; writing \<open>Signatures[0]\<close> of the converted commit panics when
  it has no signature.\<close>

definition getLastCommitHash :: "'w BlockExecutor \<Rightarrow> Commit \<Rightarrow> Header \<Rightarrow> bytes outcome" where
  "getLastCommitHash e lastCommit header =
     (let lastABCICommit =
            ToABCICommit (conv e) lastCommit (bh_Height (h_BaseHeader header))
              (Header_Hash (conv e) header)
      in
      if length (c_Signatures lastCommit) = 1 then
        (case ac_Signatures lastABCICommit of
           [] \<Rightarrow> Panicked IndexOutOfRange
         | sig0 # sigs \<Rightarrow>
             Returned
               (ABCICommit_Hash (conv e)
                  (lastABCICommit
                     \<lparr>ac_Signatures :=
                        sig0\<lparr>cs_ValidatorAddress := proposerAddress e,
                             cs_Timestamp := Header_Time (conv e) header\<rparr> # sigs\<rparr>)))
      else Returned (ABCICommit_Hash (conv e) lastABCICommit))"

definition CreateBlock ::
  "'w BlockExecutor \<Rightarrow> uint64 \<Rightarrow> Commit \<Rightarrow> bytes \<Rightarrow> State \<Rightarrow> 'w world
    \<Rightarrow> Block outcome \<times> 'w world" where
  "CreateBlock e height lastCommit lastHeaderHash state w =
     (let maxBytes = bp_MaxBytes (cp_Block (st_ConsensusParams state));
          maxGas = bp_MaxGas (cp_Block (st_ConsensusParams state))
      in
      case call (env_ReapMaxBytesMaxGas (collaborators e) maxBytes maxGas)
             (EvReapMaxBytesMaxGas maxBytes maxGas) w of
        (mempoolTxs, w1) \<Rightarrow>
          (case call (env_Now (collaborators e)) EvNow w1 of
             (now, w2) \<Rightarrow>
               let header =
                     \<lparr>h_Version =
                        \<lparr>v_Block = v_Block (sv_Consensus (st_Version state)),
                         v_App = v_App (sv_Consensus (st_Version state))\<rparr>,
                      h_BaseHeader = \<lparr>bh_ChainID = chainID e, bh_Height = height, bh_Time = now\<rparr>,
                      h_LastHeaderHash = [],
                      h_LastCommitHash = [],
                      h_DataHash = replicate 32 0,
                      h_ConsensusHash = replicate 32 0,
                      h_AppHash = st_AppHash state,
                      h_LastResultsHash = st_LastResultsHash state,
                      h_AggregatorsHash = [],
                      h_ProposerAddress = proposerAddress e\<rparr>
               in
               (case getLastCommitHash e lastCommit header of
                  Panicked p \<Rightarrow> (Panicked p, w2)
                | Returned lastCommitHash \<Rightarrow>
                    (Returned
                       \<lparr>b_SignedHeader =
                          \<lparr>sh_Header =
                             header
                               \<lparr>h_LastCommitHash := lastCommitHash,
                                h_LastHeaderHash := lastHeaderHash,
                                h_AggregatorsHash :=
                                  ValidatorSet_Hash (conv e) (st_Validators state)\<rparr>,
                           sh_Commit = lastCommit\<rparr>,
                        b_Data = \<lparr>d_Txs = toRollkitTxs mempoolTxs, d_RawRootsList = None\<rparr>\<rparr>,
                     w2))))"

section \<open>Reading a trace\<close>

text \<open>The application hashes a run obtained, in order, and the positions of
  \<open>currentIsrs\<close> it read.\<close>

fun appHashOf :: "event \<Rightarrow> bytes option" where
  "appHashOf (EvGetAppHash (Inr appHash)) = Some appHash"
| "appHashOf _ = None"

definition captured :: "event list \<Rightarrow> bytes list" where
  "captured evs = List.map_filter appHashOf evs"

fun readIndexOf :: "event \<Rightarrow> nat option" where
  "readIndexOf (EvReadIsr i) = Some i"
| "readIndexOf _ = None"

definition readIndices :: "event list \<Rightarrow> nat list" where
  "readIndices evs = List.map_filter readIndexOf evs"

fun isFinalizeBlock :: "event \<Rightarrow> bool" where
  "isFinalizeBlock (EvFinalizeBlock request reply) = True"
| "isFinalizeBlock _ = False"

fun isGenerateFraudProof :: "event \<Rightarrow> bool" where
  "isGenerateFraudProof (EvGenerateFraudProof request reply) = True"
| "isGenerateFraudProof _ = False"

text \<open>
  The capture points of \<open>execute\<close> after the first one, as the spec lists them, each with
  the DeliverTx requests and the EndBlock request the closure is given there: after
  BeginBlock (none), after each transaction (the requests up to and including it), after
  EndBlock (all requests and the EndBlock request).
\<close>

definition capturePoints ::
  "bytes list \<Rightarrow> RequestEndBlock
    \<Rightarrow> (RequestDeliverTx list option \<times> RequestEndBlock option) list" where
  "capturePoints txs endBlockRequest =
     (None, None)
     # map (\<lambda>i. (Some (map (\<lambda>tx. \<lparr>rd_Tx = tx\<rparr>) (take (Suc i) txs)), None)) [0..<length txs]
     @ [(Some (map (\<lambda>tx. \<lparr>rd_Tx = tx\<rparr>) txs), Some endBlockRequest)]"

text \<open>The closure run at a list of capture points, one after the other, until one of
  them fails.\<close>

fun capturesFrom ::
  "'w BlockExecutor \<Rightarrow> bytes list option \<Rightarrow> RequestBeginBlock
    \<Rightarrow> (RequestDeliverTx list option \<times> RequestEndBlock option) list \<Rightarrow> bytes list \<times> nat
    \<Rightarrow> 'w world \<Rightarrow> (error + bytes list \<times> nat) outcome \<times> 'w world" where
  "capturesFrom e currentIsrs beginBlockRequest [] vars w = (Returned (Inr vars), w)"
| "capturesFrom e currentIsrs beginBlockRequest (point # points) vars w =
     (case genAndGossipFraudProofIfNeeded e currentIsrs beginBlockRequest (fst point)
             (snd point) vars w of
        (Panicked p, w') \<Rightarrow> (Panicked p, w')
      | (Returned (Inl err), w') \<Rightarrow> (Returned (Inl err), w')
      | (Returned (Inr vars'), w') \<Rightarrow>
          capturesFrom e currentIsrs beginBlockRequest points vars' w')"

text \<open>
  What follows a mismatch, as the closure has it: after the \<open>GenerateFraudProof\<close> call
  with the given reply, the rest of the trace and the error returned. A failed call gives
  its own error, a response without proof the generation-failed error; a proof is
  broadcast, and then the error is \<open>ErrFraudProofGenerated\<close> when the broadcast went
  through and the broadcast error when it did not.
\<close>

definition fraudOutcome :: "string + FraudProof option \<Rightarrow> event list \<Rightarrow> error \<Rightarrow> bool" where
  "fraudOutcome reply rest err =
     (case reply of
        Inl msg \<Rightarrow> rest = [] \<and> err = External msg
      | Inr None \<Rightarrow> rest = [] \<and> err = ErrFraudProofGenerationFailed
      | Inr (Some fraudProof) \<Rightarrow>
          (rest = [EvBroadcast fraudProof None] \<and> err = ErrFraudProofGenerated)
          \<or> (\<exists>msg. rest = [EvBroadcast fraudProof (Some msg)]
                     \<and> err = ErrBroadcastFraudProof (External msg)))"

text \<open>
  What a run of the closure over the capture points \<open>ps\<close> leaves behind when fraud
  proofs are on and the block brought the roots \<open>isrs\<close>; \<open>evs\<close> are the events of the
  run, \<open>idx\<close> the position of the first point, \<open>r\<close> the result. One position is read for
  each hash obtained, from \<open>idx\<close> on; every hash but the last equals the root at its
  position; a run that goes through has met all points and called for no fraud proof;
  and a hash that differs from its root is the last one, followed by the
  \<open>GenerateFraudProof\<close> call with the requests of its point and by \<open>fraudOutcome\<close>.
\<close>

definition checkedRun ::
  "bytes list \<Rightarrow> RequestBeginBlock
    \<Rightarrow> (RequestDeliverTx list option \<times> RequestEndBlock option) list
    \<Rightarrow> bytes list \<Rightarrow> nat \<Rightarrow> event list \<Rightarrow> (error + bytes list \<times> nat) outcome \<Rightarrow> bool" where
  "checkedRun isrs bbr ps ISRs idx evs r =
     (length (captured evs) \<le> length ps
      \<and> readIndices evs = [idx ..< idx + length (captured evs)]
      \<and> (\<forall>ev \<in> set evs. \<not> isFinalizeBlock ev)
      \<and> (\<forall>p. r \<noteq> Panicked p)
      \<and> (\<forall>j. Suc j < length (captured evs) \<longrightarrow> captured evs ! j = isrs ! (idx + j))
      \<and> (\<forall>vars. r = Returned (Inr vars) \<longrightarrow>
            vars = (ISRs @ captured evs, idx + length ps)
            \<and> length (captured evs) = length ps
            \<and> (\<forall>j < length ps. captured evs ! j = isrs ! (idx + j))
            \<and> (\<forall>ev \<in> set evs. \<not> isGenerateFraudProof ev))
      \<and> (\<forall>k < length (captured evs). captured evs ! k \<noteq> isrs ! (idx + k) \<longrightarrow>
            (\<exists>before reply rest err.
               evs = before
                     @ [EvGenerateFraudProof
                          \<lparr>gfp_BeginBlockRequest = bbr,
                           gfp_DeliverTxRequests = fst (ps ! k),
                           gfp_EndBlockRequest =
                             (if fst (ps ! k) \<noteq> None then snd (ps ! k) else None)\<rparr> reply]
                     @ rest
               \<and> (\<forall>ev \<in> set before. \<not> isGenerateFraudProof ev)
               \<and> fraudOutcome reply rest err
               \<and> r = Returned (Inl err))))"



section \<open>Example collaborators and inputs\<close>

text \<open>A codec for the examples: fixed hashes, a conversion that keeps what it is given,
  and a validator-set update that drops the validators named with power 0 and adds the
  others.\<close>

definition codec0 :: codec where
  "codec0 =
     \<lparr>Block_ValidateBasic = (\<lambda>b. None),
      Block_Hash = (\<lambda>b. [1]),
      Header_Hash = (\<lambda>h. [2]),
      Header_Time = (\<lambda>h. TimeUnix (bh_Time (h_BaseHeader h))),
      SignedHeader_Hash = (\<lambda>h. [3]),
      ValidatorSet_Hash = (\<lambda>vs. [4]),
      Results_Hash = (\<lambda>rs. replicate 32 5),
      UpdateWithChangeSet =
        (\<lambda>vs changes.
           let kept = filter (\<lambda>v. val_Address v \<notin> set (map val_Address changes)) (vs_Validators vs)
                        @ filter (\<lambda>v. val_VotingPower v \<noteq> 0) changes
           in if kept = [] then Inl ErrEmptyValSetGenerated_msg
              else Inr \<lparr>vs_Validators = kept, vs_Proposer = vs_Proposer vs\<rparr>),
      IncrementProposerPriority = (\<lambda>vs times. vs),
      ToABCIHeaderPB =
        (\<lambda>h. Inr \<lparr>pb_Version = h_Version h, pb_ChainID = bh_ChainID (h_BaseHeader h),
                   pb_Height = bh_Height (h_BaseHeader h),
                   pb_Time = TimeUnix (bh_Time (h_BaseHeader h)),
                   pb_LastCommitHash = h_LastCommitHash h, pb_DataHash = h_DataHash h,
                   pb_ValidatorsHash = h_AggregatorsHash h,
                   pb_NextValidatorsHash = h_AggregatorsHash h,
                   pb_ConsensusHash = h_ConsensusHash h, pb_AppHash = h_AppHash h,
                   pb_LastResultsHash = h_LastResultsHash h,
                   pb_ProposerAddress = h_ProposerAddress h\<rparr>),
      ToABCIBlock =
        (\<lambda>b. (Some \<lparr>ab_Header =
                       (let h = sh_Header (b_SignedHeader b) in
                        \<lparr>pb_Version = h_Version h, pb_ChainID = bh_ChainID (h_BaseHeader h),
                         pb_Height = bh_Height (h_BaseHeader h),
                         pb_Time = TimeUnix (bh_Time (h_BaseHeader h)),
                         pb_LastCommitHash = h_LastCommitHash h, pb_DataHash = h_DataHash h,
                         pb_ValidatorsHash = h_AggregatorsHash h,
                         pb_NextValidatorsHash = h_AggregatorsHash h,
                         pb_ConsensusHash = h_ConsensusHash h, pb_AppHash = h_AppHash h,
                         pb_LastResultsHash = h_LastResultsHash h,
                         pb_ProposerAddress = h_ProposerAddress h\<rparr>),
                     ab_Txs = d_Txs (b_Data b), ab_Evidence = []\<rparr>, None)),
      Evidence_ToABCI = (\<lambda>evs. evs),
      ToABCICommit =
        (\<lambda>c height hash.
           \<lparr>ac_Height = height, ac_Round = 0, ac_BlockID = \<lparr>bid_Hash = hash\<rparr>,
            ac_Signatures =
              map (\<lambda>sig. \<lparr>cs_BlockIDFlag = 2, cs_ValidatorAddress = [],
                           cs_Timestamp = TimeZero, cs_Signature = sig\<rparr>) (c_Signatures c)\<rparr>),
      ABCICommit_Hash =
        (\<lambda>c. concat (map (\<lambda>s. cs_ValidatorAddress s @ cs_Signature s) (ac_Signatures c))),
      State_ToProto = (\<lambda>s. Inr \<lparr>ps_Validator = Some (cp_PubKeyTypes (st_ConsensusParams s))\<rparr>),
      PB2TM_ValidatorUpdates =
        (\<lambda>us. Inr (map (\<lambda>u. \<lparr>val_Address = vu_PubKey u, val_PubKey = vu_PubKey u,
                                val_VotingPower = vu_Power u, val_ProposerPriority = 0\<rparr>) us)),
      PubKeyFromProto_Type = (\<lambda>k. if k = [] then Inl ''empty key'' else Inr ''ed25519''),
      IsValidPubkeyType = (\<lambda>types t. t \<in> set types),
      TM2PB_Validator = (\<lambda>v. (val_Address v, val_VotingPower v))\<rparr>"

definition validator0 :: Validator where
  "validator0 = \<lparr>val_Address = [1], val_PubKey = [1], val_VotingPower = 10, val_ProposerPriority = 0\<rparr>"

definition valset0 :: ValidatorSet where
  "valset0 = \<lparr>vs_Validators = [validator0], vs_Proposer = Some validator0\<rparr>"

text \<open>A state at height 1 and a block of height 2 with the transactions given, whose
  header carries the hashes the state expects.\<close>

definition state0 :: State where
  "state0 =
     \<lparr>st_Version = \<lparr>sv_Consensus = \<lparr>v_Block = 11, v_App = 1\<rparr>, sv_Software = []\<rparr>,
      st_ChainID = ''c1'',
      st_InitialHeight = 1,
      st_LastBlockHeight = 1,
      st_LastBlockID = \<lparr>bid_Hash = [2]\<rparr>,
      st_LastBlockTime = TimeUnix 100,
      st_NextValidators = Some valset0,
      st_Validators = Some valset0,
      st_LastValidators = Some valset0,
      st_LastHeightValidatorsChanged = 1,
      st_ConsensusParams =
        \<lparr>cp_Block = \<lparr>bp_MaxBytes = 1048576, bp_MaxGas = 100\<rparr>, cp_PubKeyTypes = [''ed25519'']\<rparr>,
      st_LastHeightConsensusParamsChanged = 1,
      st_LastResultsHash = replicate 32 5,
      st_AppHash = replicate 32 170\<rparr>"

definition header0 :: "uint64 \<Rightarrow> Header" where
  "header0 height =
     \<lparr>h_Version = \<lparr>v_Block = 11, v_App = 1\<rparr>,
      h_BaseHeader = \<lparr>bh_ChainID = ''c1'', bh_Height = height, bh_Time = 200\<rparr>,
      h_LastHeaderHash = [2],
      h_LastCommitHash = [],
      h_DataHash = replicate 32 0,
      h_ConsensusHash = replicate 32 0,
      h_AppHash = replicate 32 170,
      h_LastResultsHash = replicate 32 5,
      h_AggregatorsHash = [4],
      h_ProposerAddress = [1]\<rparr>"

definition block0 :: "uint64 \<Rightarrow> bytes list \<Rightarrow> bytes list option \<Rightarrow> Block" where
  "block0 height txs isrs =
     \<lparr>b_SignedHeader = \<lparr>sh_Header = header0 height, sh_Commit = \<lparr>c_Signatures = [[9]]\<rparr>\<rparr>,
      b_Data = \<lparr>d_Txs = txs, d_RawRootsList = isrs\<rparr>\<rparr>"

definition responses0 :: "ExecTxResult option list \<Rightarrow> ValidatorUpdate list \<Rightarrow> LegacyABCIResponses" where
  "responses0 deliverTxs updates =
     \<lparr>lr_DeliverTxs = deliverTxs,
      lr_EndBlock = Some \<lparr>reb_ValidatorUpdates = updates, reb_ConsensusParamUpdates = None,
                          reb_Events = []\<rparr>,
      lr_BeginBlock = Some \<lparr>rbb_Events = []\<rparr>\<rparr>"

text \<open>A second validator, and the first one with power 0 (its removal).\<close>

definition validator1 :: Validator where
  "validator1 = \<lparr>val_Address = [2], val_PubKey = [2], val_VotingPower = 5, val_ProposerPriority = 0\<rparr>"

definition validator0_removed :: Validator where
  "validator0_removed = validator0\<lparr>val_VotingPower := 0\<rparr>"

text \<open>
  Collaborators for the examples, with a counter as their state: the application's hash is
  the counter, and it moves with every \<open>GetAppHash\<close>; \<open>FinalizeBlock\<close> answers with one
  result for each transaction; everything else succeeds.
\<close>

definition txResult0 :: ExecTxResult where
  "txResult0 =
     \<lparr>tr_Code = 0, tr_Data = [], tr_Log = [], tr_Info = [], tr_GasWanted = 0, tr_GasUsed = 0,
      tr_Events = [], tr_Codespace = []\<rparr>"

definition env0 :: "nat env" where
  "env0 =
     \<lparr>env_GetAppHash = (\<lambda>n. (Inr [of_nat n], n + 1)),
      env_FinalizeBlock =
        (\<lambda>req n. (Inr \<lparr>rf_Events = [], rf_TxResults = map (\<lambda>tx. Some txResult0) (fb_Txs req),
                         rf_ValidatorUpdates = [], rf_ConsensusParamUpdates = None,
                         rf_AppHash = [of_nat n]\<rparr>, n)),
      env_Commit = (\<lambda>n. (Inr 7, n)),
      env_GenerateFraudProof = (\<lambda>req n. (Inr (Some [42]), n)),
      env_Broadcast = (\<lambda>proof n. (None, n)),
      env_FlushAppConn = (\<lambda>n. (None, n)),
      env_Update = (\<lambda>height txs results maxBytes maxGas n. (None, n)),
      env_ReapMaxBytesMaxGas = (\<lambda>maxBytes maxGas n. ([[1], [2]], n)),
      env_PublishEventNewBlock = (\<lambda>d n. (None, n)),
      env_PublishEventNewBlockHeader = (\<lambda>h n. (None, n)),
      env_PublishEventNewEvidence = (\<lambda>ev height n. (None, n)),
      env_PublishEventTx = (\<lambda>d n. (None, n)),
      env_Now = (\<lambda>n. (200, n))\<rparr>"

definition executor0 :: "bool \<Rightarrow> nat env \<Rightarrow> nat BlockExecutor" where
  "executor0 fraud collab =
     \<lparr>proposerAddress = [1], namespaceID = replicate 8 0, chainID = ''c1'',
      fraudProofsEnabled = fraud, eventBus = True, collaborators = collab, conv = codec0\<rparr>"

definition world0 :: "nat world" where
  "world0 = \<lparr>w_state = 0, w_trace = []\<rparr>"

text \<open>An application that answers \<open>FinalizeBlock\<close> without any transaction result, and a
  fraud-proof service whose broadcast fails.\<close>

definition response_no_results :: ResponseFinalizeBlock where
  "response_no_results =
     \<lparr>rf_Events = [], rf_TxResults = [], rf_ValidatorUpdates = [],
      rf_ConsensusParamUpdates = None, rf_AppHash = []\<rparr>"

definition env_no_results :: "nat env" where
  "env_no_results = env0\<lparr>env_FinalizeBlock := (\<lambda>req n. (Inr response_no_results, n))\<rparr>"

definition env_no_broadcast :: "nat env" where
  "env_no_broadcast = env0\<lparr>env_Broadcast := (\<lambda>proof n. (Some ''no peers'', n))\<rparr>"



section \<open>The example codec, field by field\<close>

lemma codec0_sel:
  "Block_ValidateBasic codec0 b = None"
  "Block_Hash codec0 b = [1]"
  "Header_Hash codec0 h = [2]"
  "Header_Time codec0 h = TimeUnix (bh_Time (h_BaseHeader h))"
  "SignedHeader_Hash codec0 sh = [3]"
  "ValidatorSet_Hash codec0 vs = [4]"
  "Results_Hash codec0 rs = replicate 32 5"
  "IncrementProposerPriority codec0 v n = v"
  "Evidence_ToABCI codec0 evs = evs"
  "State_ToProto codec0 s = Inr \<lparr>ps_Validator = Some (cp_PubKeyTypes (st_ConsensusParams s))\<rparr>"
  "IsValidPubkeyType codec0 types t = (t \<in> set types)"
  "TM2PB_Validator codec0 val = (val_Address val, val_VotingPower val)"
  by (simp_all add: codec0_def)

section \<open>Properties of validate\<close>

text \<open>
  Claim C3, as the code has it. \<open>validate\<close> returns an error exactly when one of these
  holds: the basic validation of the block fails; the header's block version or app version
  differs from the state's; the state's \<open>LastBlockHeight\<close> is zero or negative and the
  block's height differs from \<open>InitialHeight\<close>; \<open>LastBlockHeight\<close> is positive and the
  block's height differs from \<open>LastBlockHeight + 1\<close>; or the header's \<open>AppHash\<close>,
  \<open>LastResultsHash\<close> or \<open>AggregatorsHash\<close> differs from the state's. Otherwise it returns
  no error. (\<open>LastBlockHeight\<close> is a signed 64-bit integer and the code tests \<open><= 0\<close>.)
\<close>

theorem validate_fails_iff:
  "validate cd state block \<noteq> None \<longleftrightarrow>
     (Block_ValidateBasic cd block \<noteq> None
      \<or> v_Block (h_Version (sh_Header (b_SignedHeader block)))
           \<noteq> v_Block (sv_Consensus (st_Version state))
      \<or> v_App (h_Version (sh_Header (b_SignedHeader block)))
           \<noteq> v_App (sv_Consensus (st_Version state))
      \<or> (st_LastBlockHeight state \<le>s 0 \<and>
           Header_Height (sh_Header (b_SignedHeader block)) \<noteq> st_InitialHeight state)
      \<or> (0 <s st_LastBlockHeight state \<and>
           Header_Height (sh_Header (b_SignedHeader block)) \<noteq> st_LastBlockHeight state + 1)
      \<or> h_AppHash (sh_Header (b_SignedHeader block)) \<noteq> st_AppHash state
      \<or> h_LastResultsHash (sh_Header (b_SignedHeader block)) \<noteq> st_LastResultsHash state
      \<or> h_AggregatorsHash (sh_Header (b_SignedHeader block))
           \<noteq> ValidatorSet_Hash cd (st_Validators state))"
  by (auto simp: validate_def Let_def split: option.splits)

text \<open>The theorem at a block of height 3 on a state at height 1: rejected, by the height
  linkage.\<close>

theorem validate_fails_iff_witness:
  "validate codec0 state0 (block0 3 [] None) \<noteq> None
   \<and> 0 <s st_LastBlockHeight state0
   \<and> Header_Height (sh_Header (b_SignedHeader (block0 3 [] None))) \<noteq> st_LastBlockHeight state0 + 1"
proof -
  have linkage:
    "0 <s st_LastBlockHeight state0
     \<and> Header_Height (sh_Header (b_SignedHeader (block0 3 [] None)))
         \<noteq> st_LastBlockHeight state0 + 1"
    by (simp add: state0_def block0_def header0_def Header_Height_def word_sless_alt)
  then have "validate codec0 state0 (block0 3 [] None) \<noteq> None"
    using validate_fails_iff [of codec0 state0 "block0 3 [] None"] by blast
  with linkage show ?thesis by simp
qed

text \<open>
  The claim as the spec words it, with \<open>LastBlockHeight == 0\<close> for the first height rule,
  fails on a state whose \<open>LastBlockHeight\<close> is \<open>-1\<close>: a block of height 2 is rejected
  (the initial height is 1) though none of the listed conditions holds.
\<close>

theorem validate_zero_height_counterexample:
  "validate codec0 (state0\<lparr>st_LastBlockHeight := - 1\<rparr>) (block0 2 [] None)
     = Some ErrInitialBlockHeightMismatch
   \<and> \<not> (Block_ValidateBasic codec0 (block0 2 [] None) \<noteq> None
        \<or> v_Block (h_Version (sh_Header (b_SignedHeader (block0 2 [] None))))
             \<noteq> v_Block (sv_Consensus (st_Version (state0\<lparr>st_LastBlockHeight := - 1\<rparr>)))
        \<or> v_App (h_Version (sh_Header (b_SignedHeader (block0 2 [] None))))
             \<noteq> v_App (sv_Consensus (st_Version (state0\<lparr>st_LastBlockHeight := - 1\<rparr>)))
        \<or> (st_LastBlockHeight (state0\<lparr>st_LastBlockHeight := - 1\<rparr>) = 0 \<and>
             Header_Height (sh_Header (b_SignedHeader (block0 2 [] None)))
               \<noteq> st_InitialHeight (state0\<lparr>st_LastBlockHeight := - 1\<rparr>))
        \<or> (0 <s st_LastBlockHeight (state0\<lparr>st_LastBlockHeight := - 1\<rparr>) \<and>
             Header_Height (sh_Header (b_SignedHeader (block0 2 [] None)))
               \<noteq> st_LastBlockHeight (state0\<lparr>st_LastBlockHeight := - 1\<rparr>) + 1)
        \<or> h_AppHash (sh_Header (b_SignedHeader (block0 2 [] None)))
             \<noteq> st_AppHash (state0\<lparr>st_LastBlockHeight := - 1\<rparr>)
        \<or> h_LastResultsHash (sh_Header (b_SignedHeader (block0 2 [] None)))
             \<noteq> st_LastResultsHash (state0\<lparr>st_LastBlockHeight := - 1\<rparr>)
        \<or> h_AggregatorsHash (sh_Header (b_SignedHeader (block0 2 [] None)))
             \<noteq> ValidatorSet_Hash codec0 (st_Validators (state0\<lparr>st_LastBlockHeight := - 1\<rparr>)))"
  by (simp add: validate_def state0_def block0_def header0_def Header_Height_def codec0_sel)

section \<open>Properties of updateState\<close>





text \<open>
  Claim C6. When the copy of \<open>NextValidators\<close> is not empty and \<open>UpdateWithChangeSet\<close>
  reports that the changes would leave an empty set, \<open>updateState\<close> goes on and succeeds
  with an empty validator set without proposer in \<open>Validators\<close> and \<open>NextValidators\<close>.
  When the copy is empty and there are validator updates, it returns the input state
  with \<open>ErrAddingValidatorToBased\<close>.
\<close>

theorem updateState_empty_set_cases:
  "(st_NextValidators state = Some nValSet \<and> vs_Validators nValSet \<noteq> []
      \<and> validatorUpdates \<noteq> []
      \<and> UpdateWithChangeSet cd nValSet validatorUpdates = Inl ErrEmptyValSetGenerated_msg
    \<longrightarrow> (\<exists>s'. updateState cd state block abciResponses validatorUpdates = Returned (s', None)
          \<and> st_Validators s' = Some \<lparr>vs_Validators = [], vs_Proposer = None\<rparr>
          \<and> st_NextValidators s' = Some \<lparr>vs_Validators = [], vs_Proposer = None\<rparr>))
 \<and> (st_NextValidators state = Some nValSet \<and> vs_Validators nValSet = []
      \<and> validatorUpdates \<noteq> []
    \<longrightarrow> updateState cd state block abciResponses validatorUpdates
          = Returned (state, Some ErrAddingValidatorToBased))"
  by (auto simp: updateState_def newState_def nextValSet_def ValidatorSet_Copy_def Let_def)

text \<open>The theorem where the only validator is removed, and where a validator is added to
  a state that has none.\<close>

theorem updateState_empty_set_cases_witness:
  "(\<exists>s'. updateState codec0 state0 (block0 2 [] None) (responses0 [] []) [validator0_removed]
           = Returned (s', None)
        \<and> st_Validators s' = Some \<lparr>vs_Validators = [], vs_Proposer = None\<rparr>
        \<and> st_NextValidators s' = Some \<lparr>vs_Validators = [], vs_Proposer = None\<rparr>)
 \<and> updateState codec0
      (state0\<lparr>st_NextValidators := Some \<lparr>vs_Validators = [], vs_Proposer = None\<rparr>\<rparr>)
      (block0 2 [] None) (responses0 [] []) [validator1]
    = Returned (state0\<lparr>st_NextValidators := Some \<lparr>vs_Validators = [], vs_Proposer = None\<rparr>\<rparr>,
                Some ErrAddingValidatorToBased)"
proof -
  have change: "UpdateWithChangeSet codec0 valset0 [validator0_removed]
                  = Inl ErrEmptyValSetGenerated_msg"
    by (simp add: codec0_def valset0_def validator0_def validator0_removed_def)
  have sets: "st_NextValidators state0 = Some valset0" "vs_Validators valset0 \<noteq> []"
    by (simp_all add: state0_def valset0_def)
  have first: "\<exists>s'. updateState codec0 state0 (block0 2 [] None) (responses0 [] [])
                       [validator0_removed] = Returned (s', None)
        \<and> st_Validators s' = Some \<lparr>vs_Validators = [], vs_Proposer = None\<rparr>
        \<and> st_NextValidators s' = Some \<lparr>vs_Validators = [], vs_Proposer = None\<rparr>"
    using
      updateState_empty_set_cases [of state0 valset0 "[validator0_removed]" codec0
        "block0 2 [] None" "responses0 [] []"]
      change sets
    by simp
  have second: "updateState codec0
      (state0\<lparr>st_NextValidators := Some \<lparr>vs_Validators = [], vs_Proposer = None\<rparr>\<rparr>)
      (block0 2 [] None) (responses0 [] []) [validator1]
    = Returned (state0\<lparr>st_NextValidators := Some \<lparr>vs_Validators = [], vs_Proposer = None\<rparr>\<rparr>,
                Some ErrAddingValidatorToBased)"
    using
      updateState_empty_set_cases
        [of "state0\<lparr>st_NextValidators := Some \<lparr>vs_Validators = [], vs_Proposer = None\<rparr>\<rparr>"
          "\<lparr>vs_Validators = [], vs_Proposer = None\<rparr>" "[validator1]" codec0
          "block0 2 [] None" "responses0 [] []"]
    by simp
  from first second show ?thesis by (rule conjI)
qed

section \<open>Properties of CreateBlock\<close>

lemma getLastCommitHash_value:
  assumes "length (ac_Signatures (ToABCICommit (conv e) lastCommit
             (bh_Height (h_BaseHeader header)) (Header_Hash (conv e) header)))
           = length (c_Signatures lastCommit)"
  shows "getLastCommitHash e lastCommit header =
           Returned
             (let abciCommit = ToABCICommit (conv e) lastCommit (bh_Height (h_BaseHeader header))
                                 (Header_Hash (conv e) header)
              in if length (c_Signatures lastCommit) = 1
                 then ABCICommit_Hash (conv e)
                        (abciCommit
                           \<lparr>ac_Signatures :=
                              (ac_Signatures abciCommit)
                                [0 := (ac_Signatures abciCommit ! 0)
                                        \<lparr>cs_ValidatorAddress := proposerAddress e,
                                         cs_Timestamp := Header_Time (conv e) header\<rparr>]\<rparr>)
                 else ABCICommit_Hash (conv e) abciCommit)"
  using assms
  by (cases "ac_Signatures (ToABCICommit (conv e) lastCommit
             (bh_Height (h_BaseHeader header)) (Header_Hash (conv e) header))")
     (simp_all add: getLastCommitHash_def Let_def)

text \<open>
  Claim C7. With a conversion that keeps the number of signatures, \<open>CreateBlock\<close>
  returns a block whose \<open>LastCommitHash\<close> is, for a last commit with exactly one
  signature, the hash of the converted commit after \<open>Signatures[0].ValidatorAddress\<close> has
  been set to the executor's proposer address and \<open>Signatures[0].Timestamp\<close> to the time
  of the new header, and for any other number of signatures the hash of the converted
  commit as it is. The commit is converted with the height and the hash of the new
  header, which at that moment has no last commit hash, last header hash or aggregators
  hash yet.
\<close>

theorem CreateBlock_LastCommitHash:
  assumes "\<forall>height hash. length (ac_Signatures (ToABCICommit (conv e) lastCommit height hash))
                           = length (c_Signatures lastCommit)"
  shows "\<exists>block w'.
           CreateBlock e height lastCommit lastHeaderHash state w = (Returned block, w')
         \<and> (let header = (sh_Header (b_SignedHeader block))
                             \<lparr>h_LastCommitHash := [], h_LastHeaderHash := [],
                              h_AggregatorsHash := []\<rparr>;
                 abciCommit = ToABCICommit (conv e) lastCommit height (Header_Hash (conv e) header)
             in h_LastCommitHash (sh_Header (b_SignedHeader block)) =
                  (if length (c_Signatures lastCommit) = 1
                   then ABCICommit_Hash (conv e)
                          (abciCommit
                             \<lparr>ac_Signatures :=
                                (ac_Signatures abciCommit)
                                  [0 := (ac_Signatures abciCommit ! 0)
                                          \<lparr>cs_ValidatorAddress := proposerAddress e,
                                           cs_Timestamp := Header_Time (conv e) header\<rparr>]\<rparr>)
                   else ABCICommit_Hash (conv e) abciCommit))"
proof -
  obtain mempoolTxs w1 where reap:
    "call (env_ReapMaxBytesMaxGas (collaborators e)
             (bp_MaxBytes (cp_Block (st_ConsensusParams state)))
             (bp_MaxGas (cp_Block (st_ConsensusParams state))))
       (EvReapMaxBytesMaxGas (bp_MaxBytes (cp_Block (st_ConsensusParams state)))
             (bp_MaxGas (cp_Block (st_ConsensusParams state)))) w = (mempoolTxs, w1)"
    by (cases "call (env_ReapMaxBytesMaxGas (collaborators e)
             (bp_MaxBytes (cp_Block (st_ConsensusParams state)))
             (bp_MaxGas (cp_Block (st_ConsensusParams state))))
       (EvReapMaxBytesMaxGas (bp_MaxBytes (cp_Block (st_ConsensusParams state)))
             (bp_MaxGas (cp_Block (st_ConsensusParams state)))) w")
  obtain now w2 where clock: "call (env_Now (collaborators e)) EvNow w1 = (now, w2)"
    by (cases "call (env_Now (collaborators e)) EvNow w1")
  show ?thesis
    using assms
    by (simp add: CreateBlock_def reap clock getLastCommitHash_value Let_def)
qed


lemma codec0_commit:
  "ToABCICommit codec0 c height hash =
     \<lparr>ac_Height = height, ac_Round = 0, ac_BlockID = \<lparr>bid_Hash = hash\<rparr>,
      ac_Signatures =
        map (\<lambda>sig. \<lparr>cs_BlockIDFlag = 2, cs_ValidatorAddress = [],
                     cs_Timestamp = TimeZero, cs_Signature = sig\<rparr>) (c_Signatures c)\<rparr>"
  "ABCICommit_Hash codec0 ac =
     concat (map (\<lambda>s. cs_ValidatorAddress s @ cs_Signature s) (ac_Signatures ac))"
  by (simp_all add: codec0_def)

text \<open>The theorem at a last commit with the one signature \<open>[9]\<close>: the example codec
  hashes a commit to its addresses and signatures, and the address is the proposer's.\<close>

theorem CreateBlock_LastCommitHash_witness:
  "\<exists>block w'.
     CreateBlock (executor0 False env0) 2 \<lparr>c_Signatures = [[9]]\<rparr> [2] state0 world0
       = (Returned block, w')
   \<and> h_LastCommitHash (sh_Header (b_SignedHeader block)) = [1, 9]"
proof -
  have kept: "\<forall>height hash.
      length (ac_Signatures (ToABCICommit (conv (executor0 False env0)) \<lparr>c_Signatures = [[9]]\<rparr>
                               height hash))
      = length (c_Signatures \<lparr>c_Signatures = [[9]]\<rparr>)"
    by (simp add: executor0_def codec0_commit)
  from CreateBlock_LastCommitHash [OF kept, of 2 "[2]" state0 world0]
  show ?thesis
    by (simp add: Let_def) (simp add: executor0_def codec0_commit)
qed

section \<open>The trace of execute\<close>

lemma call_trace:
  "call f ev w = (r, w') \<Longrightarrow> w_trace w' = w_trace w @ [ev r]"
  by (auto simp: call_def split: prod.splits)

lemma emit_trace: "w_trace (emit ev w) = w_trace w @ [ev]"
  by (simp add: emit_def)

lemma getAppHash_cases:
  assumes "getAppHash e w = (r, w')"
  shows "(\<exists>msg. r = Inl (External msg) \<and> w_trace w' = w_trace w @ [EvGetAppHash (Inl msg)])
       \<or> (\<exists>h. r = Inr h \<and> w_trace w' = w_trace w @ [EvGetAppHash (Inr h)])"
  using assms
  by (auto simp: getAppHash_def split: prod.splits sum.splits dest: call_trace)

lemma generateFraudProof_cases:
  assumes "generateFraudProof e (Some bbr) dtxs ebr w = (r, w')"
  shows "\<exists>reply. w_trace w' = w_trace w @
            [EvGenerateFraudProof
               \<lparr>gfp_BeginBlockRequest = bbr, gfp_DeliverTxRequests = dtxs,
                gfp_EndBlockRequest = (if dtxs \<noteq> None then ebr else None)\<rparr> reply]
         \<and> r = (case reply of Inl msg \<Rightarrow> Inl (External msg)
                 | Inr None \<Rightarrow> Inl ErrFraudProofGenerationFailed
                 | Inr (Some fraudProof) \<Rightarrow> Inr fraudProof)"
proof -
  let ?req = "\<lparr>gfp_BeginBlockRequest = bbr, gfp_DeliverTxRequests = dtxs,
                gfp_EndBlockRequest = (if dtxs \<noteq> None then ebr else None)\<rparr>"
  have req: "\<lparr>gfp_BeginBlockRequest = bbr,
             gfp_DeliverTxRequests = (if dtxs \<noteq> None then dtxs else None),
             gfp_EndBlockRequest = (if dtxs \<noteq> None \<and> ebr \<noteq> None then ebr else None)\<rparr> = ?req"
    by (cases dtxs; cases ebr) simp_all
  obtain reply w1 where c:
    "call (env_GenerateFraudProof (collaborators e) ?req) (EvGenerateFraudProof ?req) w = (reply, w1)"
    by (cases "call (env_GenerateFraudProof (collaborators e) ?req) (EvGenerateFraudProof ?req) w")
  from assms have "r = (case reply of Inl msg \<Rightarrow> Inl (External msg)
                 | Inr None \<Rightarrow> Inl ErrFraudProofGenerationFailed
                 | Inr (Some fraudProof) \<Rightarrow> Inr fraudProof) \<and> w' = w1"
    unfolding generateFraudProof_def option.case Let_def req c
    by (auto split: sum.splits option.splits)
  with call_trace [OF c] show ?thesis by blast
qed


text \<open>One run of the closure, by cases.\<close>

lemma isFraudProofTrigger_some:
  "isFraudProofTrigger e h (Some isrs) idx w =
     (if idx < length isrs
      then if isrs ! idx \<noteq> h
           then (Returned True, emit (EvLog Debug ''ISR Mismatch'') (emit (EvReadIsr idx) w))
           else (Returned False, emit (EvReadIsr idx) w)
      else (Panicked IndexOutOfRange, emit (EvReadIsr idx) w))"
  by (simp add: isFraudProofTrigger_def Let_def)

lemma gen_disabled:
  "\<not> fraudProofsEnabled e \<Longrightarrow>
     genAndGossipFraudProofIfNeeded e cur bbr dtxs ebr vars w = (Returned (Inr vars), w)"
  by (cases vars) (simp add: genAndGossipFraudProofIfNeeded_def)

lemma gen_none:
  assumes "fraudProofsEnabled e"
    and "genAndGossipFraudProofIfNeeded e None bbr dtxs ebr (ISRs, idx) w = (r, w')"
  shows "(\<exists>msg. w_trace w' = w_trace w @ [EvGetAppHash (Inl msg)]
               \<and> r = Returned (Inl (External msg)))
       \<or> (\<exists>h. w_trace w' = w_trace w @ [EvGetAppHash (Inr h)]
               \<and> r = Returned (Inr (ISRs @ [h], idx + 1)))"
proof -
  obtain g w1 where g: "getAppHash e w = (g, w1)" by (cases "getAppHash e w")
  from getAppHash_cases [OF g] assms show ?thesis
    by (auto simp: genAndGossipFraudProofIfNeeded_def g isFraudProofTrigger_def)
qed

lemma gen_some:
  assumes "fraudProofsEnabled e"
    and "genAndGossipFraudProofIfNeeded e (Some isrs) bbr dtxs ebr (ISRs, idx) w = (r, w')"
  shows "(\<exists>msg. w_trace w' = w_trace w @ [EvGetAppHash (Inl msg)]
               \<and> r = Returned (Inl (External msg)))
       \<or> (\<exists>h. w_trace w' = w_trace w @ [EvGetAppHash (Inr h), EvReadIsr idx]
               \<and> \<not> idx < length isrs \<and> r = Panicked IndexOutOfRange)
       \<or> (\<exists>h. w_trace w' = w_trace w @ [EvGetAppHash (Inr h), EvReadIsr idx]
               \<and> idx < length isrs \<and> isrs ! idx = h
               \<and> r = Returned (Inr (ISRs @ [h], idx + 1)))
       \<or> (\<exists>h reply rest err.
               w_trace w' = w_trace w @
                 [EvGetAppHash (Inr h), EvReadIsr idx, EvLog Debug ''ISR Mismatch'',
                  EvLog Info ''found fraud occurrence, generating a fraud proof...'',
                  EvGenerateFraudProof
                    \<lparr>gfp_BeginBlockRequest = bbr, gfp_DeliverTxRequests = dtxs,
                     gfp_EndBlockRequest = (if dtxs \<noteq> None then ebr else None)\<rparr> reply] @ rest
               \<and> idx < length isrs \<and> isrs ! idx \<noteq> h
               \<and> fraudOutcome reply rest err \<and> r = Returned (Inl err))"
proof -
  obtain g w1 where g: "getAppHash e w = (g, w1)" by (cases "getAppHash e w")
  show ?thesis
  proof (cases g)
    case (Inl err)
    with getAppHash_cases [OF g] assms g show ?thesis
      by (auto simp: genAndGossipFraudProofIfNeeded_def)
  next
    case (Inr h)
    with getAppHash_cases [OF g] have t1: "w_trace w1 = w_trace w @ [EvGetAppHash (Inr h)]"
      by auto
    show ?thesis
    proof (cases "idx < length isrs")
      case False
      with assms g Inr t1 show ?thesis
        by (auto simp: genAndGossipFraudProofIfNeeded_def isFraudProofTrigger_some emit_trace)
    next
      case inside: True
      show ?thesis
      proof (cases "isrs ! idx = h")
        case True
        with assms g Inr t1 inside show ?thesis
          by (auto simp: genAndGossipFraudProofIfNeeded_def isFraudProofTrigger_some emit_trace)
      next
        case False
        let ?w3 = "emit (EvLog Info ''found fraud occurrence, generating a fraud proof...'')
                     (emit (EvLog Debug ''ISR Mismatch'') (emit (EvReadIsr idx) w1))"
        obtain p w4 where p: "generateFraudProof e (Some bbr) dtxs ebr ?w3 = (p, w4)"
          by (cases "generateFraudProof e (Some bbr) dtxs ebr ?w3")
        from generateFraudProof_cases [OF p] obtain reply where
          t4: "w_trace w4 = w_trace ?w3 @
                 [EvGenerateFraudProof
                    \<lparr>gfp_BeginBlockRequest = bbr, gfp_DeliverTxRequests = dtxs,
                     gfp_EndBlockRequest = (if dtxs \<noteq> None then ebr else None)\<rparr> reply]"
          and pr: "p = (case reply of Inl msg \<Rightarrow> Inl (External msg)
                 | Inr None \<Rightarrow> Inl ErrFraudProofGenerationFailed
                 | Inr (Some fraudProof) \<Rightarrow> Inr fraudProof)"
          by blast
        have t4': "w_trace w4 = w_trace w @
                 [EvGetAppHash (Inr h), EvReadIsr idx, EvLog Debug ''ISR Mismatch'',
                  EvLog Info ''found fraud occurrence, generating a fraud proof...'',
                  EvGenerateFraudProof
                    \<lparr>gfp_BeginBlockRequest = bbr, gfp_DeliverTxRequests = dtxs,
                     gfp_EndBlockRequest = (if dtxs \<noteq> None then ebr else None)\<rparr> reply]"
          by (simp add: t4 emit_trace t1)
        have step: "genAndGossipFraudProofIfNeeded e (Some isrs) bbr dtxs ebr (ISRs, idx) w =
                (case p of
                   Inl err \<Rightarrow> (Returned (Inl err), w4)
                 | Inr fraudProof \<Rightarrow>
                     (case call (env_Broadcast (collaborators e) fraudProof)
                             (EvBroadcast fraudProof) w4 of
                        (Some msg, w5) \<Rightarrow>
                          (Returned (Inl (ErrBroadcastFraudProof (External msg))), w5)
                      | (None, w5) \<Rightarrow> (Returned (Inl ErrFraudProofGenerated), w5)))"
          using assms(1) inside False
          by (simp add: genAndGossipFraudProofIfNeeded_def g Inr isFraudProofTrigger_some p)
        show ?thesis
        proof (cases p)
          case (Inl err)
          with pr have "fraudOutcome reply [] err"
            by (auto simp: fraudOutcome_def split: sum.splits option.splits)
          moreover from step Inl assms(2) have "r = Returned (Inl err)" "w' = w4" by auto
          ultimately show ?thesis using t4' inside False by auto
        next
          case (Inr fraudProof)
          with pr have reply: "reply = Inr (Some fraudProof)"
            by (auto split: sum.splits option.splits)
          obtain b w5 where b:
            "call (env_Broadcast (collaborators e) fraudProof) (EvBroadcast fraudProof) w4 = (b, w5)"
            by (cases "call (env_Broadcast (collaborators e) fraudProof) (EvBroadcast fraudProof) w4")
          from call_trace [OF b] have t5: "w_trace w5 = w_trace w4 @ [EvBroadcast fraudProof b]" .
          from step Inr b assms(2)
          have res: "w' = w5"
            "r = Returned (Inl (case b of None \<Rightarrow> ErrFraudProofGenerated
                                 | Some msg \<Rightarrow> ErrBroadcastFraudProof (External msg)))"
            by (auto split: option.splits)
          have "fraudOutcome reply [EvBroadcast fraudProof b]
                  (case b of None \<Rightarrow> ErrFraudProofGenerated
                   | Some msg \<Rightarrow> ErrBroadcastFraudProof (External msg))"
            by (cases b) (simp_all add: fraudOutcome_def reply)
          with res t5 t4' inside False show ?thesis by auto
        qed
      qed
    qed
  qed
qed


text \<open>Reading hashes and read positions off a trace.\<close>

lemma captured_simps [simp]:
  "captured [] = []"
  "captured (EvGetAppHash (Inr h) # evs) = h # captured evs"
  "captured (EvGetAppHash (Inl msg) # evs) = captured evs"
  "captured (EvReadIsr i # evs) = captured evs"
  "captured (EvLog l s # evs) = captured evs"
  "captured (EvGenerateFraudProof req reply # evs) = captured evs"
  "captured (EvBroadcast fp b # evs) = captured evs"
  "captured (EvSetResponseCallback # evs) = captured evs"
  "captured (EvFinalizeBlock freq frep # evs) = captured evs"
  by (simp_all add: captured_def map_filter_simps)

lemma captured_append [simp]: "captured (xs @ ys) = captured xs @ captured ys"
  by (simp add: captured_def map_filter_def)

lemma readIndices_simps [simp]:
  "readIndices [] = []"
  "readIndices (EvReadIsr i # evs) = i # readIndices evs"
  "readIndices (EvGetAppHash g # evs) = readIndices evs"
  "readIndices (EvLog l s # evs) = readIndices evs"
  "readIndices (EvGenerateFraudProof req reply # evs) = readIndices evs"
  "readIndices (EvBroadcast fp b # evs) = readIndices evs"
  "readIndices (EvSetResponseCallback # evs) = readIndices evs"
  "readIndices (EvFinalizeBlock freq frep # evs) = readIndices evs"
  by (simp_all add: readIndices_def map_filter_simps)

lemma readIndices_append [simp]: "readIndices (xs @ ys) = readIndices xs @ readIndices ys"
  by (simp add: readIndices_def map_filter_def)

lemma fraudOutcome_rest:
  assumes "fraudOutcome reply rest err"
  shows "captured rest = [] \<and> readIndices rest = []
       \<and> (\<forall>ev \<in> set rest. \<not> isFinalizeBlock ev)"
  using assms
  by (auto simp: fraudOutcome_def split: sum.splits option.splits)

text \<open>The closure over a list of capture points.\<close>

lemma checkedRun_Nil: "checkedRun isrs bbr [] ISRs idx [] (Returned (Inr (ISRs, idx)))"
  by (simp add: checkedRun_def)

lemma checkedRun_hash_error:
  "checkedRun isrs bbr ps ISRs idx [EvGetAppHash (Inl msg)] (Returned (Inl err))"
  by (simp add: checkedRun_def)

lemma checkedRun_mismatch:
  assumes out: "fraudOutcome reply rest err" and differ: "isrs ! idx \<noteq> h"
  shows "checkedRun isrs bbr (p # ps) ISRs idx
           ([EvGetAppHash (Inr h), EvReadIsr idx, EvLog Debug ''ISR Mismatch'',
             EvLog Info ''found fraud occurrence, generating a fraud proof...'',
             EvGenerateFraudProof
               \<lparr>gfp_BeginBlockRequest = bbr, gfp_DeliverTxRequests = fst p,
                gfp_EndBlockRequest = (if fst p \<noteq> None then snd p else None)\<rparr> reply] @ rest)
           (Returned (Inl err))"
proof -
  define before where
    "before = [EvGetAppHash (Inr h), EvReadIsr idx, EvLog Debug ''ISR Mismatch'',
               EvLog Info ''found fraud occurrence, generating a fraud proof...'']"
  define gen where
    "gen = EvGenerateFraudProof
               \<lparr>gfp_BeginBlockRequest = bbr, gfp_DeliverTxRequests = fst p,
                gfp_EndBlockRequest = (if fst p \<noteq> None then snd p else None)\<rparr> reply"
  define evs where "evs = before @ [gen] @ rest"
  from fraudOutcome_rest [OF out]
  have rest: "captured rest = []" "readIndices rest = []"
    "\<forall>ev \<in> set rest. \<not> isFinalizeBlock ev" by auto
  have cap: "captured evs = [h]" and rd: "readIndices evs = [idx]"
    and nofin: "\<forall>ev \<in> set evs. \<not> isFinalizeBlock ev"
    and nogen: "\<forall>ev \<in> set before. \<not> isGenerateFraudProof ev"
    using rest by (auto simp: evs_def before_def gen_def)
  have report: "\<exists>before' reply' rest' err'.
               evs = before'
                     @ [EvGenerateFraudProof
                          \<lparr>gfp_BeginBlockRequest = bbr,
                           gfp_DeliverTxRequests = fst ((p # ps) ! k),
                           gfp_EndBlockRequest =
                             (if fst ((p # ps) ! k) \<noteq> None then snd ((p # ps) ! k) else None)\<rparr>
                          reply']
                     @ rest'
               \<and> (\<forall>ev \<in> set before'. \<not> isGenerateFraudProof ev)
               \<and> fraudOutcome reply' rest' err'
               \<and> (Returned (Inl err) :: (error + bytes list \<times> nat) outcome) = Returned (Inl err')"
    if "k < length (captured evs)" for k
  proof -
    from that cap have k: "k = 0" by simp
    have "evs = before @ [EvGenerateFraudProof
                          \<lparr>gfp_BeginBlockRequest = bbr,
                           gfp_DeliverTxRequests = fst ((p # ps) ! k),
                           gfp_EndBlockRequest =
                             (if fst ((p # ps) ! k) \<noteq> None then snd ((p # ps) ! k) else None)\<rparr>
                          reply] @ rest"
      unfolding k evs_def gen_def by simp
    with nogen out show ?thesis by blast
  qed
  have "checkedRun isrs bbr (p # ps) ISRs idx evs (Returned (Inl err))"
    unfolding checkedRun_def
    using report nofin by (simp add: cap rd)
  then show ?thesis by (simp add: evs_def before_def gen_def)
qed


lemma checkedRun_step:
  assumes run: "checkedRun isrs bbr ps (ISRs @ [h]) (Suc idx) evs2 r"
    and same: "isrs ! idx = h"
  shows "checkedRun isrs bbr (p # ps) ISRs idx ([EvGetAppHash (Inr h), EvReadIsr idx] @ evs2) r"
proof -
  define evs where "evs = [EvGetAppHash (Inr h), EvReadIsr idx] @ evs2"
  have cap: "captured evs = h # captured evs2"
    and rd: "readIndices evs = idx # readIndices evs2"
    by (simp_all add: evs_def)
  note parts = run [unfolded checkedRun_def]
  have len2: "length (captured evs2) \<le> length ps"
    by (rule parts [THEN conjunct1])
  have rd2: "readIndices evs2 = [Suc idx ..< Suc idx + length (captured evs2)]"
    by (rule parts [THEN conjunct2, THEN conjunct1])
  have fin2: "\<forall>ev \<in> set evs2. \<not> isFinalizeBlock ev"
    by (rule parts [THEN conjunct2, THEN conjunct2, THEN conjunct1])
  have nopanic: "\<forall>p. r \<noteq> Panicked p"
    by (rule parts [THEN conjunct2, THEN conjunct2, THEN conjunct2, THEN conjunct1])
  have match2: "\<forall>j. Suc j < length (captured evs2) \<longrightarrow>
                    captured evs2 ! j = isrs ! (Suc idx + j)"
    by (rule parts [THEN conjunct2, THEN conjunct2, THEN conjunct2, THEN conjunct2, THEN conjunct1])
  have ok2: "\<forall>vars. r = Returned (Inr vars) \<longrightarrow>
            vars = ((ISRs @ [h]) @ captured evs2, Suc idx + length ps)
            \<and> length (captured evs2) = length ps
            \<and> (\<forall>j < length ps. captured evs2 ! j = isrs ! (Suc idx + j))
            \<and> (\<forall>ev \<in> set evs2. \<not> isGenerateFraudProof ev)"
    by (rule parts [THEN conjunct2, THEN conjunct2, THEN conjunct2, THEN conjunct2, THEN conjunct2, THEN conjunct1])
  have bad2: "\<forall>k < length (captured evs2). captured evs2 ! k \<noteq> isrs ! (Suc idx + k) \<longrightarrow>
            (\<exists>before reply rest err.
               evs2 = before
                     @ [EvGenerateFraudProof
                          \<lparr>gfp_BeginBlockRequest = bbr,
                           gfp_DeliverTxRequests = fst (ps ! k),
                           gfp_EndBlockRequest =
                             (if fst (ps ! k) \<noteq> None then snd (ps ! k) else None)\<rparr> reply]
                     @ rest
               \<and> (\<forall>ev \<in> set before. \<not> isGenerateFraudProof ev)
               \<and> fraudOutcome reply rest err
               \<and> r = Returned (Inl err))"
    by (rule parts [THEN conjunct2, THEN conjunct2, THEN conjunct2, THEN conjunct2, THEN conjunct2, THEN conjunct2])
  have c1: "length (captured evs) \<le> length (p # ps)"
    using len2 by (simp add: cap)
  have "[idx ..< idx + Suc (length (captured evs2))]
          = idx # [Suc idx ..< Suc idx + length (captured evs2)]"
    by (subst upt_conv_Cons) simp_all
  moreover have "length (captured evs) = Suc (length (captured evs2))"
    by (simp add: cap)
  ultimately have c2: "readIndices evs = [idx ..< idx + length (captured evs)]"
    by (simp only: rd rd2)
  have c3: "\<forall>ev \<in> set evs. \<not> isFinalizeBlock ev"
    using fin2 by (simp add: evs_def)
  have c5: "\<forall>j. Suc j < length (captured evs) \<longrightarrow> captured evs ! j = isrs ! (idx + j)"
  proof (intro allI impI)
    fix j assume j: "Suc j < length (captured evs)"
    show "captured evs ! j = isrs ! (idx + j)"
    proof (cases j)
      case 0
      then show ?thesis by (simp add: cap same)
    next
      case (Suc j')
      with j match2 show ?thesis by (simp add: cap)
    qed
  qed
  have c6: "\<forall>vars. r = Returned (Inr vars) \<longrightarrow>
            vars = (ISRs @ captured evs, idx + length (p # ps))
            \<and> length (captured evs) = length (p # ps)
            \<and> (\<forall>j < length (p # ps). captured evs ! j = isrs ! (idx + j))
            \<and> (\<forall>ev \<in> set evs. \<not> isGenerateFraudProof ev)"
  proof (intro allI impI)
    fix vars assume r: "r = Returned (Inr vars)"
    with ok2 have v: "vars = ((ISRs @ [h]) @ captured evs2, Suc idx + length ps)"
      and l: "length (captured evs2) = length ps"
      and m: "\<forall>j < length ps. captured evs2 ! j = isrs ! (Suc idx + j)"
      and g: "\<forall>ev \<in> set evs2. \<not> isGenerateFraudProof ev"
      by blast+
    have "\<forall>j < length (p # ps). captured evs ! j = isrs ! (idx + j)"
    proof (intro allI impI)
      fix j assume "j < length (p # ps)"
      then show "captured evs ! j = isrs ! (idx + j)"
        using m same by (cases j) (simp_all add: cap)
    qed
    then show "vars = (ISRs @ captured evs, idx + length (p # ps))
            \<and> length (captured evs) = length (p # ps)
            \<and> (\<forall>j < length (p # ps). captured evs ! j = isrs ! (idx + j))
            \<and> (\<forall>ev \<in> set evs. \<not> isGenerateFraudProof ev)"
      using v l g by (simp add: cap evs_def)
  qed
  have c7: "\<forall>k < length (captured evs). captured evs ! k \<noteq> isrs ! (idx + k) \<longrightarrow>
            (\<exists>before reply rest err.
               evs = before
                     @ [EvGenerateFraudProof
                          \<lparr>gfp_BeginBlockRequest = bbr,
                           gfp_DeliverTxRequests = fst ((p # ps) ! k),
                           gfp_EndBlockRequest =
                             (if fst ((p # ps) ! k) \<noteq> None then snd ((p # ps) ! k) else None)\<rparr>
                          reply]
                     @ rest
               \<and> (\<forall>ev \<in> set before. \<not> isGenerateFraudProof ev)
               \<and> fraudOutcome reply rest err
               \<and> r = Returned (Inl err))"
  proof (intro allI impI)
    fix k assume k: "k < length (captured evs)"
      and differ: "captured evs ! k \<noteq> isrs ! (idx + k)"
    from differ same obtain k' where k': "k = Suc k'"
      by (cases k) (simp_all add: cap)
    from k differ have "k' < length (captured evs2)"
      "captured evs2 ! k' \<noteq> isrs ! (Suc idx + k')"
      by (simp_all add: cap k')
    with bad2 obtain before reply rest err where
      e2: "evs2 = before
                     @ [EvGenerateFraudProof
                          \<lparr>gfp_BeginBlockRequest = bbr,
                           gfp_DeliverTxRequests = fst (ps ! k'),
                           gfp_EndBlockRequest =
                             (if fst (ps ! k') \<noteq> None then snd (ps ! k') else None)\<rparr> reply]
                     @ rest"
      and b: "\<forall>ev \<in> set before. \<not> isGenerateFraudProof ev"
      and f: "fraudOutcome reply rest err" and res: "r = Returned (Inl err)"
      by blast
    have "evs = ([EvGetAppHash (Inr h), EvReadIsr idx] @ before)
                     @ [EvGenerateFraudProof
                          \<lparr>gfp_BeginBlockRequest = bbr,
                           gfp_DeliverTxRequests = fst ((p # ps) ! k),
                           gfp_EndBlockRequest =
                             (if fst ((p # ps) ! k) \<noteq> None then snd ((p # ps) ! k) else None)\<rparr>
                          reply]
                     @ rest"
      by (simp add: evs_def e2 k')
    moreover have "\<forall>ev \<in> set ([EvGetAppHash (Inr h), EvReadIsr idx] @ before).
                     \<not> isGenerateFraudProof ev"
      using b by simp
    ultimately show "\<exists>before reply rest err.
               evs = before
                     @ [EvGenerateFraudProof
                          \<lparr>gfp_BeginBlockRequest = bbr,
                           gfp_DeliverTxRequests = fst ((p # ps) ! k),
                           gfp_EndBlockRequest =
                             (if fst ((p # ps) ! k) \<noteq> None then snd ((p # ps) ! k) else None)\<rparr>
                          reply]
                     @ rest
               \<and> (\<forall>ev \<in> set before. \<not> isGenerateFraudProof ev)
               \<and> fraudOutcome reply rest err
               \<and> r = Returned (Inl err)"
      using f res by blast
  qed
  have "checkedRun isrs bbr (p # ps) ISRs idx evs r"
    unfolding checkedRun_def
    using c1 c2 c3 nopanic c5 c6 c7 by blast
  then show ?thesis by (simp add: evs_def)
qed

lemma capturesFrom_some:
  assumes en: "fraudProofsEnabled e"
  shows "idx + length ps \<le> length isrs \<Longrightarrow>
         capturesFrom e (Some isrs) bbr ps (ISRs, idx) w = (r, w') \<Longrightarrow>
         \<exists>evs. w_trace w' = w_trace w @ evs \<and> checkedRun isrs bbr ps ISRs idx evs r"
proof (induction ps arbitrary: ISRs idx w)
  case Nil
  then show ?case by (auto simp: checkedRun_Nil)
next
  case (Cons p ps)
  obtain r1 w1 where g:
    "genAndGossipFraudProofIfNeeded e (Some isrs) bbr (fst p) (snd p) (ISRs, idx) w = (r1, w1)"
    by (cases "genAndGossipFraudProofIfNeeded e (Some isrs) bbr (fst p) (snd p) (ISRs, idx) w")
  from Cons.prems(1) have inside: "idx < length isrs" by simp
  from gen_some [OF en g] inside
  consider
    (hash_error) msg where "w_trace w1 = w_trace w @ [EvGetAppHash (Inl msg)]"
      "r1 = Returned (Inl (External msg))"
  | (same) h where "w_trace w1 = w_trace w @ [EvGetAppHash (Inr h), EvReadIsr idx]"
      "isrs ! idx = h" "r1 = Returned (Inr (ISRs @ [h], idx + 1))"
  | (differ) h reply rest err where
      "w_trace w1 = w_trace w @
                 [EvGetAppHash (Inr h), EvReadIsr idx, EvLog Debug ''ISR Mismatch'',
                  EvLog Info ''found fraud occurrence, generating a fraud proof...'',
                  EvGenerateFraudProof
                    \<lparr>gfp_BeginBlockRequest = bbr, gfp_DeliverTxRequests = fst p,
                     gfp_EndBlockRequest = (if fst p \<noteq> None then snd p else None)\<rparr> reply] @ rest"
      "isrs ! idx \<noteq> h" "fraudOutcome reply rest err" "r1 = Returned (Inl err)"
    by blast
  then show ?case
  proof cases
    case hash_error
    with Cons.prems(2) g have "r = Returned (Inl (External msg))" "w' = w1" by auto
    with hash_error checkedRun_hash_error show ?thesis by blast
  next
    case same
    with Cons.prems(2) g
    have rest: "capturesFrom e (Some isrs) bbr ps (ISRs @ [h], Suc idx) w1 = (r, w')" by auto
    from Cons.prems(1) have "Suc idx + length ps \<le> length isrs" by simp
    from Cons.IH [OF this rest] obtain evs2 where
      t2: "w_trace w' = w_trace w1 @ evs2"
      and c2: "checkedRun isrs bbr ps (ISRs @ [h]) (Suc idx) evs2 r" by blast
    from checkedRun_step [OF c2 same(2)] t2 same(1) show ?thesis by auto
  next
    case differ
    with Cons.prems(2) g have "r = Returned (Inl err)" "w' = w1" by auto
    with differ checkedRun_mismatch [OF differ(3) differ(2)] show ?thesis by blast
  qed
qed


text \<open>The loop and the three uses of the closure in \<open>execute\<close> are a run over
  \<open>capturePoints\<close>.\<close>

lemma capturesFrom_disabled:
  "\<not> fraudProofsEnabled e \<Longrightarrow> capturesFrom e cur bbr ps vars w = (Returned (Inr vars), w)"
  by (induction ps arbitrary: vars w) (simp_all add: gen_disabled)

lemma capturesFrom_append:
  "capturesFrom e cur bbr (ps @ qs) vars w =
     (case capturesFrom e cur bbr ps vars w of
        (Panicked p, w') \<Rightarrow> (Panicked p, w')
      | (Returned (Inl err), w') \<Rightarrow> (Returned (Inl err), w')
      | (Returned (Inr vars'), w') \<Rightarrow> capturesFrom e cur bbr qs vars' w')"
proof (induction ps arbitrary: vars w)
  case Nil
  show ?case by simp
next
  case (Cons p ps)
  show ?case
    by (simp add: Cons.IH split: prod.splits outcome.splits sum.splits)
qed

lemma upt_0_Suc_map: "map f [0..<Suc n] = f 0 # map (\<lambda>i. f (Suc i)) [0..<n]"
proof -
  have "[0..<Suc n] = 0 # map Suc [0..<n]"
    by (simp only: map_Suc_upt upt_conv_Cons [of 0 "Suc n"] zero_less_Suc)
  then show ?thesis by (simp only: list.map map_map comp_def)
qed

lemma deliverTxsLoop_captures:
  "deliverTxsLoop e cur bbr txs dreqs vars w =
     (case capturesFrom e cur bbr
             (map (\<lambda>i. (Some (dreqs @ map (\<lambda>tx. \<lparr>rd_Tx = tx\<rparr>) (take (Suc i) txs)), None))
                [0..<length txs]) vars w of
        (Panicked p, w') \<Rightarrow> (Panicked p, w')
      | (Returned (Inl err), w') \<Rightarrow> (Returned (Inl err), w')
      | (Returned (Inr vars'), w') \<Rightarrow>
          (Returned (Inr (dreqs @ map (\<lambda>tx. \<lparr>rd_Tx = tx\<rparr>) txs, vars')), w'))"
proof (induction txs arbitrary: dreqs vars w)
  case Nil
  show ?case by simp
next
  case (Cons tx txs)
  have points:
    "map (\<lambda>i. (Some (dreqs @ map (\<lambda>tx. \<lparr>rd_Tx = tx\<rparr>) (take (Suc i) (tx # txs))), None))
       [0..<length (tx # txs)]
     = (Some (dreqs @ [\<lparr>rd_Tx = tx\<rparr>]), None)
       # map (\<lambda>i. (Some ((dreqs @ [\<lparr>rd_Tx = tx\<rparr>])
                            @ map (\<lambda>tx. \<lparr>rd_Tx = tx\<rparr>) (take (Suc i) txs)), None))
           [0..<length txs]"
    by (simp only: list.size upt_0_Suc_map add_Suc_right add_0_right) simp
  show ?case
    unfolding points
    by (simp add: Cons.IH Let_def split: prod.splits outcome.splits sum.splits)
qed

lemma executeCaptures_captures:
  "executeCaptures e block bbr fresp resp vars w =
     (case capturesFrom e (d_RawRootsList (b_Data block)) bbr
             (capturePoints (d_Txs (b_Data block))
                \<lparr>re_Height = Header_Height (sh_Header (b_SignedHeader block))\<rparr>) vars w of
        (Panicked p, w') \<Rightarrow> (Panicked p, w')
      | (Returned (Inl err), w') \<Rightarrow> (Returned (Inl err), w')
      | (Returned (Inr (ISRs, idx)), w') \<Rightarrow>
          (Returned
             (Inr (resp\<lparr>lr_EndBlock :=
                          Some \<lparr>reb_ValidatorUpdates = rf_ValidatorUpdates fresp,
                                reb_ConsensusParamUpdates = rf_ConsensusParamUpdates fresp,
                                reb_Events = rf_Events fresp\<rparr>\<rparr>,
                   if fraudProofsEnabled e \<and> d_RawRootsList (b_Data block) = None
                   then block\<lparr>b_Data := (b_Data block)\<lparr>d_RawRootsList := Some ISRs\<rparr>\<rparr>
                   else block)), w'))"
proof -
  have split_points:
    "capturePoints (d_Txs (b_Data block))
        \<lparr>re_Height = Header_Height (sh_Header (b_SignedHeader block))\<rparr>
     = [(None, None)]
       @ (map (\<lambda>i. (Some ([] @ map (\<lambda>tx. \<lparr>rd_Tx = tx\<rparr>) (take (Suc i) (d_Txs (b_Data block)))),
                     None)) [0..<length (d_Txs (b_Data block))]
          @ [(Some (map (\<lambda>tx. \<lparr>rd_Tx = tx\<rparr>) (d_Txs (b_Data block))),
              Some \<lparr>re_Height = Header_Height (sh_Header (b_SignedHeader block))\<rparr>)])"
    by (simp add: capturePoints_def)
  show ?thesis
    unfolding split_points capturesFrom_append
    by (simp add: executeCaptures_def deliverTxsLoop_captures Let_def
          split: prod.splits outcome.splits sum.splits)
qed


lemma capturesFrom_none:
  assumes en: "fraudProofsEnabled e"
  shows "capturesFrom e None bbr ps (ISRs, idx) w = (r, w') \<Longrightarrow>
         \<exists>evs. w_trace w' = w_trace w @ evs
             \<and> readIndices evs = []
             \<and> (\<forall>ev \<in> set evs. \<not> isFinalizeBlock ev \<and> \<not> isGenerateFraudProof ev)
             \<and> (\<forall>p. r \<noteq> Panicked p)
             \<and> length (captured evs) \<le> length ps
             \<and> (\<forall>vars. r = Returned (Inr vars) \<longrightarrow>
                   vars = (ISRs @ captured evs, idx + length ps)
                   \<and> length (captured evs) = length ps)"
proof (induction ps arbitrary: ISRs idx w)
  case Nil
  then show ?case by auto
next
  case (Cons p ps)
  obtain r1 w1 where g:
    "genAndGossipFraudProofIfNeeded e None bbr (fst p) (snd p) (ISRs, idx) w = (r1, w1)"
    by (cases "genAndGossipFraudProofIfNeeded e None bbr (fst p) (snd p) (ISRs, idx) w")
  from gen_none [OF en g]
  consider
    (hash_error) msg where "w_trace w1 = w_trace w @ [EvGetAppHash (Inl msg)]"
      "r1 = Returned (Inl (External msg))"
  | (got) h where "w_trace w1 = w_trace w @ [EvGetAppHash (Inr h)]"
      "r1 = Returned (Inr (ISRs @ [h], idx + 1))"
    by blast
  then show ?case
  proof cases
    case hash_error
    with Cons.prems g have "r = Returned (Inl (External msg))" "w' = w1" by auto
    with hash_error show ?thesis by auto
  next
    case got
    with Cons.prems g
    have rest: "capturesFrom e None bbr ps (ISRs @ [h], Suc idx) w1 = (r, w')" by auto
    from Cons.IH [OF rest] obtain evs2 where
      t2: "w_trace w' = w_trace w1 @ evs2"
      and rd: "readIndices evs2 = []"
      and ev: "\<forall>ev \<in> set evs2. \<not> isFinalizeBlock ev \<and> \<not> isGenerateFraudProof ev"
      and np: "\<forall>p. r \<noteq> Panicked p"
      and ln: "length (captured evs2) \<le> length ps"
      and ok: "\<forall>vars. r = Returned (Inr vars) \<longrightarrow>
                   vars = ((ISRs @ [h]) @ captured evs2, Suc idx + length ps)
                   \<and> length (captured evs2) = length ps"
      by blast
    have "w_trace w' = w_trace w @ (EvGetAppHash (Inr h) # evs2)"
      by (simp add: t2 got(1))
    moreover have "readIndices (EvGetAppHash (Inr h) # evs2) = []"
      by (simp add: rd)
    moreover have "\<forall>ev \<in> set (EvGetAppHash (Inr h) # evs2).
                     \<not> isFinalizeBlock ev \<and> \<not> isGenerateFraudProof ev"
      using ev by simp
    moreover have "length (captured (EvGetAppHash (Inr h) # evs2)) \<le> length (p # ps)"
      using ln by simp
    moreover have "\<forall>vars. r = Returned (Inr vars) \<longrightarrow>
                   vars = (ISRs @ captured (EvGetAppHash (Inr h) # evs2), idx + length (p # ps))
                   \<and> length (captured (EvGetAppHash (Inr h) # evs2)) = length (p # ps)"
      using ok by simp
    ultimately show ?thesis using np by blast
  qed
qed

text \<open>The shape of a run of \<open>executeFinalize\<close>.\<close>

lemma executeFinalize_cases:
  assumes run: "executeFinalize e state block resp0 vars w = (r, w')"
  obtains
    (early) "w' = w" "\<forall>x. r \<noteq> Returned (Inr x)" "r \<noteq> Panicked IndexOutOfRange"
  | (finalize_error) req msg where
      "w_trace w' = w_trace w
         @ [EvFinalizeBlock req (Inl msg), EvLog Error ''error in proxyAppConn.FinalizeBlock'']"
      "r = Returned (Inl (External msg))"
  | (length_mismatch) req fresp ab where
      "ToABCIBlock (conv e) block = (Some ab, None)"
      "w_trace w' = w_trace w @ [EvFinalizeBlock req (Inr fresp), EvLog Info ''finalized block'']"
      "length (ab_Txs ab) \<noteq> length (rf_TxResults fresp)"
      "r = Returned (Inl (ErrTxResultsLength (length (d_Txs (b_Data block)))
                           (length (rf_TxResults fresp))))"
  | (captures) req fresp ab bbr w2 where
      "ToABCIBlock (conv e) block = (Some ab, None)"
      "length (ab_Txs ab) = length (rf_TxResults fresp)"
      "w_trace w2 = w_trace w @ [EvFinalizeBlock req (Inr fresp), EvLog Info ''finalized block'',
                                 EvLog Info ''executed block'']"
      "bbq_Hash bbr = Block_Hash (conv e) block"
      "pb_ChainID (bbq_Header bbr) = chainID e"
      "pb_ValidatorsHash (bbq_Header bbr) = ValidatorSet_Hash (conv e) (st_Validators state)"
      "executeCaptures e block bbr fresp
         (resp0\<lparr>lr_BeginBlock := Some \<lparr>rbb_Events = rf_Events fresp\<rparr>\<rparr>) vars w2 = (r, w')"
proof (cases "ToABCIHeaderPB (conv e) (sh_Header (b_SignedHeader block))")
  case (Inl msg)
  with run have "w' = w" "r = Returned (Inl (External msg))"
    by (simp_all add: executeFinalize_def)
  then show ?thesis by (intro early) simp_all
next
  case header: (Inr abciHeader)
  show ?thesis
  proof (cases "buildLastCommitInfo (conv e) block (st_Validators state) (st_InitialHeight state)")
    case (Panicked p)
    then have "p \<noteq> IndexOutOfRange"
      by (auto simp: buildLastCommitInfo_def Let_def split: if_splits option.splits)
    moreover from run header Panicked have "w' = w" "r = Panicked p"
      by (simp_all add: executeFinalize_def)
    ultimately show ?thesis by (intro early) simp_all
  next
    case info: (Returned commitInfo)
    obtain abp aberr where conv: "ToABCIBlock (conv e) block = (abp, aberr)"
      by (cases "ToABCIBlock (conv e) block")
    show ?thesis
    proof (cases aberr)
      case (Some msg)
      with run header info conv have "w' = w \<and> r = Returned (Inl (External msg))"
        by (cases abp) (simp_all add: executeFinalize_def)
      then show ?thesis by (intro early) simp_all
    next
      case noerr: None
      show ?thesis
      proof (cases abp)
        case None
        with run header info conv noerr have "w' = w" "r = Panicked NilPointerDereference"
          by (simp_all add: executeFinalize_def)
        then show ?thesis by (intro early) simp_all
      next
        case (Some ab)
        define req where
          "req = \<lparr>fb_Hash = Block_Hash (conv e) block,
                  fb_NextValidatorsHash = pb_NextValidatorsHash (ab_Header ab),
                  fb_ProposerAddress = pb_ProposerAddress (ab_Header ab),
                  fb_Height = pb_Height (ab_Header ab),
                  fb_Time = pb_Time (ab_Header ab),
                  fb_DecidedLastCommit = commitInfo,
                  fb_Misbehavior = Evidence_ToABCI (conv e) (ab_Evidence ab),
                  fb_Txs = ab_Txs ab\<rparr>"
        define bbr where
          "bbr = \<lparr>bbq_Hash = Block_Hash (conv e) block,
                 bbq_Header =
                   abciHeader
                     \<lparr>pb_ChainID := chainID e,
                      pb_ValidatorsHash := ValidatorSet_Hash (conv e) (st_Validators state)\<rparr>,
                 bbq_LastCommitInfo = \<lparr>ci_Round = 0, ci_Votes = []\<rparr>,
                 bbq_ByzantineValidators = []\<rparr>"
        obtain reply w1 where fin:
          "call (env_FinalizeBlock (collaborators e) req) (EvFinalizeBlock req) w = (reply, w1)"
          by (cases "call (env_FinalizeBlock (collaborators e) req) (EvFinalizeBlock req) w")
        note t1 = call_trace [OF fin]
        have unfolded:
          "executeFinalize e state block resp0 vars w =
             (case reply of
                Inl msg \<Rightarrow>
                  (Returned (Inl (External msg)),
                   emit (EvLog Error ''error in proxyAppConn.FinalizeBlock'') w1)
              | Inr fresp \<Rightarrow>
                  if length (ab_Txs ab) \<noteq> length (rf_TxResults fresp)
                  then (Returned
                          (Inl (ErrTxResultsLength (length (d_Txs (b_Data block)))
                                  (length (rf_TxResults fresp)))),
                        emit (EvLog Info ''finalized block'') w1)
                  else
                    executeCaptures e block bbr fresp
                      (resp0\<lparr>lr_BeginBlock := Some \<lparr>rbb_Events = rf_Events fresp\<rparr>\<rparr>)
                      vars (emit (EvLog Info ''executed block'')
                              (emit (EvLog Info ''finalized block'') w1)))"
          by (cases reply)
             (simp_all add: executeFinalize_def header info conv noerr Some Let_def
                req_def [symmetric] fin bbr_def)
        show ?thesis
        proof (cases reply)
          case (Inl msg)
          with run unfolded t1 show ?thesis
            by (intro finalize_error [of req msg]) (auto simp: emit_trace)
        next
          case (Inr fresp)
          show ?thesis
          proof (cases "length (ab_Txs ab) = length (rf_TxResults fresp)")
            case False
            with run unfolded t1 Inr conv noerr Some show ?thesis
              by (intro length_mismatch [of ab req fresp]) (auto simp: emit_trace)
          next
            case True
            with run unfolded Inr have
              "executeCaptures e block bbr fresp
                 (resp0\<lparr>lr_BeginBlock := Some \<lparr>rbb_Events = rf_Events fresp\<rparr>\<rparr>)
                 vars (emit (EvLog Info ''executed block'')
                         (emit (EvLog Info ''finalized block'') w1)) = (r, w')"
              by simp
            moreover have "w_trace (emit (EvLog Info ''executed block'')
                         (emit (EvLog Info ''finalized block'') w1))
                = w_trace w @ [EvFinalizeBlock req (Inr fresp), EvLog Info ''finalized block'',
                                 EvLog Info ''executed block'']"
              by (simp add: emit_trace t1 Inr)
            ultimately show ?thesis
              using True conv noerr Some
              by (intro captures [of ab fresp _ req bbr]) (simp_all add: bbr_def)
          qed
        qed
      qed
    qed
  qed
qed


lemma length_capturePoints [simp]: "length (capturePoints txs ebr) = length txs + 2"
  by (simp add: capturePoints_def)

lemma executeCaptures_result:
  assumes "executeCaptures e block bbr fresp resp vars w = (r, w')"
  obtains rC where
    "capturesFrom e (d_RawRootsList (b_Data block)) bbr
       (capturePoints (d_Txs (b_Data block))
          \<lparr>re_Height = Header_Height (sh_Header (b_SignedHeader block))\<rparr>) vars w = (rC, w')"
    "\<And>p. (r = Panicked p) = (rC = Panicked p)"
    "\<And>err. (r = Returned (Inl err)) = (rC = Returned (Inl err))"
    "\<And>x. r = Returned (Inr x) \<Longrightarrow>
        \<exists>ISRs idx. rC = Returned (Inr (ISRs, idx))
          \<and> snd x = (if fraudProofsEnabled e \<and> d_RawRootsList (b_Data block) = None
                      then block\<lparr>b_Data := (b_Data block)\<lparr>d_RawRootsList := Some ISRs\<rparr>\<rparr>
                      else block)"
proof -
  obtain rC wC where c:
    "capturesFrom e (d_RawRootsList (b_Data block)) bbr
       (capturePoints (d_Txs (b_Data block))
          \<lparr>re_Height = Header_Height (sh_Header (b_SignedHeader block))\<rparr>) vars w = (rC, wC)"
    by (cases "capturesFrom e (d_RawRootsList (b_Data block)) bbr
       (capturePoints (d_Txs (b_Data block))
          \<lparr>re_Height = Header_Height (sh_Header (b_SignedHeader block))\<rparr>) vars w")
  from assms have eq:
    "(r, w') =
     (case rC of
        Panicked p \<Rightarrow> (Panicked p, wC)
      | Returned (Inl err) \<Rightarrow> (Returned (Inl err), wC)
      | Returned (Inr (ISRs, idx)) \<Rightarrow>
          (Returned
             (Inr (resp\<lparr>lr_EndBlock :=
                          Some \<lparr>reb_ValidatorUpdates = rf_ValidatorUpdates fresp,
                                reb_ConsensusParamUpdates = rf_ConsensusParamUpdates fresp,
                                reb_Events = rf_Events fresp\<rparr>\<rparr>,
                   if fraudProofsEnabled e \<and> d_RawRootsList (b_Data block) = None
                   then block\<lparr>b_Data := (b_Data block)\<lparr>d_RawRootsList := Some ISRs\<rparr>\<rparr>
                   else block)), wC))"
    unfolding executeCaptures_captures c
    by (simp split: outcome.splits sum.splits prod.splits)
  then have w: "w' = wC"
    by (auto split: outcome.splits sum.splits prod.splits)
  show ?thesis
  proof (rule that [of rC])
    show "capturesFrom e (d_RawRootsList (b_Data block)) bbr
       (capturePoints (d_Txs (b_Data block))
          \<lparr>re_Height = Header_Height (sh_Header (b_SignedHeader block))\<rparr>) vars w = (rC, w')"
      using c w by simp
    show "\<And>p. (r = Panicked p) = (rC = Panicked p)"
      using eq by (auto split: outcome.splits sum.splits prod.splits)
    show "\<And>err. (r = Returned (Inl err)) = (rC = Returned (Inl err))"
      using eq by (auto split: outcome.splits sum.splits prod.splits)
    show "\<And>x. r = Returned (Inr x) \<Longrightarrow>
        \<exists>ISRs idx. rC = Returned (Inr (ISRs, idx))
          \<and> snd x = (if fraudProofsEnabled e \<and> d_RawRootsList (b_Data block) = None
                      then block\<lparr>b_Data := (b_Data block)\<lparr>d_RawRootsList := Some ISRs\<rparr>\<rparr>
                      else block)"
      using eq by (auto split: outcome.splits sum.splits prod.splits)
  qed
qed

text \<open>The shape of a run of \<open>execute\<close> up to \<open>executeFinalize\<close>.\<close>

lemma execute_cases:
  assumes run: "execute e state block w = (r, w')"
  obtains
    (bad_length) isrs where
      "fraudProofsEnabled e" "d_RawRootsList (b_Data block) = Some isrs"
      "length isrs \<noteq> length (d_Txs (b_Data block)) + 3" "w' = w"
      "r = Returned (Inl (ErrInvalidISRLength (length isrs) (length (d_Txs (b_Data block)) + 3)))"
  | (first_hash_error) msg where
      "fraudProofsEnabled e"
      "w_trace w' = w_trace w @ [EvSetResponseCallback, EvGetAppHash (Inl msg)]"
      "r = Returned (Inl (External msg))"
  | (fraud_run) isr w1 where
      "fraudProofsEnabled e"
      "\<And>isrs. d_RawRootsList (b_Data block) = Some isrs \<Longrightarrow>
          length isrs = length (d_Txs (b_Data block)) + 3"
      "w_trace w1 = w_trace w @ [EvSetResponseCallback, EvGetAppHash (Inr isr)]"
      "executeFinalize e state block
         \<lparr>lr_DeliverTxs = replicate (length (d_Txs (b_Data block))) None,
          lr_EndBlock = None, lr_BeginBlock = None\<rparr> ([isr], 1) w1 = (r, w')"
  | (plain_run) w1 where
      "\<not> fraudProofsEnabled e"
      "w_trace w1 = w_trace w @ [EvSetResponseCallback]"
      "executeFinalize e state block
         \<lparr>lr_DeliverTxs = replicate (length (d_Txs (b_Data block))) None,
          lr_EndBlock = None, lr_BeginBlock = None\<rparr> ([], 0) w1 = (r, w')"
proof (cases "fraudProofsEnabled e")
  case False
  with run have "executeFinalize e state block
         \<lparr>lr_DeliverTxs = replicate (length (d_Txs (b_Data block))) None,
          lr_EndBlock = None, lr_BeginBlock = None\<rparr> ([], 0) (emit EvSetResponseCallback w) = (r, w')"
    by (simp add: execute_def Let_def)
  with False show ?thesis
    by (intro plain_run [of "emit EvSetResponseCallback w"]) (simp_all add: emit_trace)
next
  case en: True
  show ?thesis
  proof (cases "\<exists>isrs. d_RawRootsList (b_Data block) = Some isrs
                  \<and> length isrs \<noteq> length (d_Txs (b_Data block)) + 3")
    case True
    then obtain isrs where i: "d_RawRootsList (b_Data block) = Some isrs"
      "length isrs \<noteq> length (d_Txs (b_Data block)) + 3" by blast
    with run en show ?thesis
      by (intro bad_length [of isrs]) (simp_all add: execute_def Let_def)
  next
    case False
    then have len: "\<And>isrs. d_RawRootsList (b_Data block) = Some isrs \<Longrightarrow>
          length isrs = length (d_Txs (b_Data block)) + 3" by blast
    obtain g w1 where g: "getAppHash e (emit EvSetResponseCallback w) = (g, w1)"
      by (cases "getAppHash e (emit EvSetResponseCallback w)")
    from run en False have step:
      "(r, w') = (case g of
          Inl err \<Rightarrow> (Returned (Inl err), w1)
        | Inr isr \<Rightarrow> executeFinalize e state block
             \<lparr>lr_DeliverTxs = replicate (length (d_Txs (b_Data block))) None,
              lr_EndBlock = None, lr_BeginBlock = None\<rparr> ([isr], 1) w1)"
      by (cases "d_RawRootsList (b_Data block)") (auto simp: execute_def Let_def g)
    show ?thesis
    proof (cases g)
      case (Inl err)
      with getAppHash_cases [OF g] obtain msg where
        "err = External msg"
        "w_trace w1 = w_trace w @ [EvSetResponseCallback, EvGetAppHash (Inl msg)]"
        by (auto simp: emit_trace)
      with step Inl en show ?thesis
        by (intro first_hash_error [of msg]) simp_all
    next
      case (Inr isr)
      with getAppHash_cases [OF g] have
        "w_trace w1 = w_trace w @ [EvSetResponseCallback, EvGetAppHash (Inr isr)]"
        by (auto simp: emit_trace)
      with step Inr en len show ?thesis
        by (intro fraud_run [of w1 isr]) simp_all
    qed
  qed
qed

section \<open>Properties of execute\<close>



text \<open>Running the examples.\<close>

lemmas run_defs =
  execute_def executeFinalize_def executeCaptures_def genAndGossipFraudProofIfNeeded_def
  getAppHash_def isFraudProofTrigger_def generateFraudProof_def buildLastCommitInfo_def
  call_def emit_def Let_def Header_Height_def

lemma codec0_block:
  "ToABCIHeaderPB codec0 h =
     Inr \<lparr>pb_Version = h_Version h, pb_ChainID = bh_ChainID (h_BaseHeader h),
          pb_Height = bh_Height (h_BaseHeader h),
          pb_Time = TimeUnix (bh_Time (h_BaseHeader h)),
          pb_LastCommitHash = h_LastCommitHash h, pb_DataHash = h_DataHash h,
          pb_ValidatorsHash = h_AggregatorsHash h,
          pb_NextValidatorsHash = h_AggregatorsHash h,
          pb_ConsensusHash = h_ConsensusHash h, pb_AppHash = h_AppHash h,
          pb_LastResultsHash = h_LastResultsHash h,
          pb_ProposerAddress = h_ProposerAddress h\<rparr>"
  "ToABCIBlock codec0 b =
     (Some \<lparr>ab_Header =
              (let h = sh_Header (b_SignedHeader b) in
               \<lparr>pb_Version = h_Version h, pb_ChainID = bh_ChainID (h_BaseHeader h),
                pb_Height = bh_Height (h_BaseHeader h),
                pb_Time = TimeUnix (bh_Time (h_BaseHeader h)),
                pb_LastCommitHash = h_LastCommitHash h, pb_DataHash = h_DataHash h,
                pb_ValidatorsHash = h_AggregatorsHash h,
                pb_NextValidatorsHash = h_AggregatorsHash h,
                pb_ConsensusHash = h_ConsensusHash h, pb_AppHash = h_AppHash h,
                pb_LastResultsHash = h_LastResultsHash h,
                pb_ProposerAddress = h_ProposerAddress h\<rparr>),
            ab_Txs = d_Txs (b_Data b), ab_Evidence = []\<rparr>, None)"
  by (simp_all add: codec0_def)

lemma executor0_sel:
  "proposerAddress (executor0 fraud collab) = [1]"
  "chainID (executor0 fraud collab) = ''c1''"
  "fraudProofsEnabled (executor0 fraud collab) = fraud"
  "eventBus (executor0 fraud collab) = True"
  "collaborators (executor0 fraud collab) = collab"
  "conv (executor0 fraud collab) = codec0"
  by (simp_all add: executor0_def)

lemma env0_sel:
  "env_GetAppHash env0 n = (Inr [of_nat n], n + 1)"
  "env_FinalizeBlock env0 req n =
     (Inr \<lparr>rf_Events = [], rf_TxResults = map (\<lambda>tx. Some txResult0) (fb_Txs req),
           rf_ValidatorUpdates = [], rf_ConsensusParamUpdates = None,
           rf_AppHash = [of_nat n]\<rparr>, n)"
  "env_Commit env0 n = (Inr 7, n)"
  "env_GenerateFraudProof env0 greq n = (Inr (Some [42]), n)"
  "env_Broadcast env0 fp n = (None, n)"
  "env_FlushAppConn env0 n = (None, n)"
  "env_Update env0 height txs results maxBytes maxGas n = (None, n)"
  "env_ReapMaxBytesMaxGas env0 maxBytes maxGas n = ([[1], [2]], n)"
  "env_PublishEventNewBlock env0 d n = (None, n)"
  "env_PublishEventNewBlockHeader env0 h n = (None, n)"
  "env_PublishEventNewEvidence env0 evd height n = (None, n)"
  "env_PublishEventTx env0 dtx n = (None, n)"
  "env_Now env0 n = (200, n)"
  by (simp_all add: env0_def)




text \<open>
  Claim C9. When fraud proofs are enabled and the block brings a non-nil list of roots,
  \<open>execute\<close> never panics on \<open>currentIsrs[index]\<close>, and every position it reads lies
  between 1 and \<open>len(Txs) + 2\<close> and within the list. This holds whatever the length
  of the list: a list that does not pass the length check at the start (length
  \<open>len(Txs) + 3\<close>) is refused before anything is read.
\<close>

theorem execute_reads_in_bounds:
  assumes en: "fraudProofsEnabled e"
    and some: "d_RawRootsList (b_Data block) = Some isrs"
    and run: "execute e state block w = (r, w')"
  shows "r \<noteq> Panicked IndexOutOfRange
       \<and> (\<exists>evs. w_trace w' = w_trace w @ evs
             \<and> (\<forall>i \<in> set (readIndices evs).
                   1 \<le> i \<and> i \<le> length (d_Txs (b_Data block)) + 2 \<and> i < length isrs))"
  using run
proof (cases rule: execute_cases)
  case (bad_length isrs')
  then show ?thesis by simp
next
  case (first_hash_error msg)
  then show ?thesis by simp
next
  case (plain_run w1)
  with en show ?thesis by simp
next
  case (fraud_run isr w1)
  from fraud_run(2) [OF some] have len: "length isrs = length (d_Txs (b_Data block)) + 3" .
  have pre: "readIndices [EvSetResponseCallback, EvGetAppHash (Inr isr)] = []" by simp
  from fraud_run(4) show ?thesis
  proof (cases rule: executeFinalize_cases)
    case early
    with fraud_run(3) show ?thesis by simp
  next
    case (finalize_error req msg)
    then have "w_trace w' = w_trace w @
       ([EvSetResponseCallback, EvGetAppHash (Inr isr)]
        @ [EvFinalizeBlock req (Inl msg), EvLog Error ''error in proxyAppConn.FinalizeBlock''])"
      by (simp add: fraud_run(3))
    moreover have "readIndices
       ([EvSetResponseCallback, EvGetAppHash (Inr isr)]
        @ [EvFinalizeBlock req (Inl msg), EvLog Error ''error in proxyAppConn.FinalizeBlock''])
       = []" by simp
    ultimately show ?thesis using finalize_error(2) by (metis empty_iff empty_set outcome.distinct(1))
  next
    case (length_mismatch req fresp ab)
    then have "w_trace w' = w_trace w @
       ([EvSetResponseCallback, EvGetAppHash (Inr isr)]
        @ [EvFinalizeBlock req (Inr fresp), EvLog Info ''finalized block''])"
      by (simp add: fraud_run(3))
    moreover have "readIndices
       ([EvSetResponseCallback, EvGetAppHash (Inr isr)]
        @ [EvFinalizeBlock req (Inr fresp), EvLog Info ''finalized block'']) = []" by simp
    ultimately show ?thesis using length_mismatch(4) by (metis empty_iff empty_set outcome.distinct(1))
  next
    case (captures req fresp ab bbr w2)
    from captures(7) show ?thesis
    proof (cases rule: executeCaptures_result)
      case (1 rC)
      have bound: "1 + length (capturePoints (d_Txs (b_Data block))
                      \<lparr>re_Height = Header_Height (sh_Header (b_SignedHeader block))\<rparr>)
                   \<le> length isrs"
        by (simp add: len)
      from capturesFrom_some [OF en bound 1(1) [unfolded some]] obtain evsC where
        tC: "w_trace w' = w_trace w2 @ evsC"
        and chk: "checkedRun isrs bbr
                    (capturePoints (d_Txs (b_Data block))
                      \<lparr>re_Height = Header_Height (sh_Header (b_SignedHeader block))\<rparr>)
                    [isr] 1 evsC rC"
        by blast
      note parts = chk [unfolded checkedRun_def]
      have l: "length (captured evsC) \<le> length (d_Txs (b_Data block)) + 2"
        using parts [THEN conjunct1] by simp
      have rd: "readIndices evsC = [1 ..< 1 + length (captured evsC)]"
        by (rule parts [THEN conjunct2, THEN conjunct1])
      have np: "\<forall>p. rC \<noteq> Panicked p"
        by (rule parts [THEN conjunct2, THEN conjunct2, THEN conjunct2, THEN conjunct1])
      let ?evs = "[EvSetResponseCallback, EvGetAppHash (Inr isr)]
                  @ [EvFinalizeBlock req (Inr fresp), EvLog Info ''finalized block'',
                     EvLog Info ''executed block''] @ evsC"
      have t: "w_trace w' = w_trace w @ ?evs"
        by (simp add: tC captures(3) fraud_run(3))
      have "readIndices ?evs = [1 ..< 1 + length (captured evsC)]"
        using rd by simp
      then have "\<forall>i \<in> set (readIndices ?evs).
                   1 \<le> i \<and> i \<le> length (d_Txs (b_Data block)) + 2 \<and> i < length isrs"
        using l len by auto
      moreover have "r \<noteq> Panicked IndexOutOfRange"
        using np 1(2) by blast
      ultimately show ?thesis using t by blast
    qed
  qed
qed


section \<open>The number of transaction results\<close>

lemma capturesFrom_no_finalize:
  assumes run: "capturesFrom e cur bbr ps (ISRs, idx) w = (r, w')"
    and bound: "\<And>isrs. cur = Some isrs \<Longrightarrow> idx + length ps \<le> length isrs"
  shows "\<exists>evs. w_trace w' = w_trace w @ evs \<and> (\<forall>ev \<in> set evs. \<not> isFinalizeBlock ev)"
proof (cases "fraudProofsEnabled e")
  case False
  from run capturesFrom_disabled [OF False] have "w' = w" by simp
  then show ?thesis by simp
next
  case en: True
  show ?thesis
  proof (cases cur)
    case None
    from capturesFrom_none [OF en run [unfolded None]] show ?thesis by blast
  next
    case (Some isrs)
    from capturesFrom_some [OF en bound [OF Some] run [unfolded Some]] obtain evs where
      t: "w_trace w' = w_trace w @ evs" and c: "checkedRun isrs bbr ps ISRs idx evs r" by blast
    from c have "\<forall>ev \<in> set evs. \<not> isFinalizeBlock ev"
      by (simp add: checkedRun_def)
    with t show ?thesis by blast
  qed
qed

text \<open>A \<open>FinalizeBlock\<close> response in the trace of \<open>execute\<close> is the one whose results
  \<open>execute\<close> counted.\<close>

lemma execute_finalize_event:
  assumes run: "execute e state block w = (r, w')"
    and tr: "w_trace w' = w_trace w @ evs"
    and ev: "EvFinalizeBlock req (Inr fresp) \<in> set evs"
  shows "\<exists>ab. ToABCIBlock (conv e) block = (Some ab, None)
            \<and> (length (ab_Txs ab) \<noteq> length (rf_TxResults fresp) \<longrightarrow>
                 r = Returned (Inl (ErrTxResultsLength (length (d_Txs (b_Data block)))
                                      (length (rf_TxResults fresp)))))"
proof -
  have fin: ?thesis
    if pre: "w_trace w1 = w_trace w @ pre" "\<forall>ev \<in> set pre. \<not> isFinalizeBlock ev"
      and vars: "fraudProofsEnabled e \<Longrightarrow> idx = 1" 
      and len: "\<And>isrs. fraudProofsEnabled e \<Longrightarrow> d_RawRootsList (b_Data block) = Some isrs \<Longrightarrow>
                  length isrs = length (d_Txs (b_Data block)) + 3"
      and f: "executeFinalize e state block resp0 (ISRs, idx) w1 = (r, w')"
    for w1 pre resp0 ISRs idx
    using f
  proof (cases rule: executeFinalize_cases)
    case early
    with pre tr have "evs = pre" by simp
    with pre(2) ev show ?thesis by auto
  next
    case (finalize_error req' msg)
    with pre tr have "evs = pre @ [EvFinalizeBlock req' (Inl msg),
                                   EvLog Error ''error in proxyAppConn.FinalizeBlock'']"
      by simp
    with pre(2) ev show ?thesis by auto
  next
    case (length_mismatch req' fresp' ab)
    with pre tr have "evs = pre @ [EvFinalizeBlock req' (Inr fresp'),
                                   EvLog Info ''finalized block'']"
      by simp
    with pre(2) ev have "fresp' = fresp" by auto
    with length_mismatch show ?thesis by simp
  next
    case (captures req' fresp' ab bbr w2)
    from captures(7) show ?thesis
    proof (cases rule: executeCaptures_result)
      case (1 rC)
      have "\<exists>evsC. w_trace w' = w_trace w2 @ evsC \<and> (\<forall>ev \<in> set evsC. \<not> isFinalizeBlock ev)"
      proof (cases "fraudProofsEnabled e")
        case False
        from 1(1) capturesFrom_disabled [OF False] have "w' = w2" by simp
        then show ?thesis by simp
      next
        case True
        show ?thesis
        proof (rule capturesFrom_no_finalize [OF 1(1)])
          fix isrs assume "d_RawRootsList (b_Data block) = Some isrs"
          with len [OF True] vars [OF True]
          show "idx + length (capturePoints (d_Txs (b_Data block))
                    \<lparr>re_Height = Header_Height (sh_Header (b_SignedHeader block))\<rparr>)
                 \<le> length isrs"
            by simp
        qed
      qed
      then obtain evsC where tC: "w_trace w' = w_trace w2 @ evsC"
        and nC: "\<forall>ev \<in> set evsC. \<not> isFinalizeBlock ev" by blast
      from tC captures(3) pre tr
      have "evs = pre @ [EvFinalizeBlock req' (Inr fresp'), EvLog Info ''finalized block'',
                         EvLog Info ''executed block''] @ evsC"
        by simp
      with pre(2) nC ev have "fresp' = fresp" by auto
      with captures(1,2) show ?thesis by simp
    qed
  qed
  from run show ?thesis
  proof (cases rule: execute_cases)
    case (bad_length isrs)
    with tr ev show ?thesis by simp
  next
    case (first_hash_error msg)
    with tr ev show ?thesis by auto
  next
    case (fraud_run isr w1)
    show ?thesis
      by (rule fin [OF fraud_run(3) _ _ _ fraud_run(4)]) (simp_all add: fraud_run(2))
  next
    case (plain_run w1)
    show ?thesis
      by (rule fin [OF plain_run(2) _ _ _ plain_run(3)]) (simp_all add: plain_run(1))
  qed
qed

text \<open>\<open>ApplyBlock\<close> on top of \<open>execute\<close>: nothing happens before a failed \<open>validate\<close>,
  and after \<open>execute\<close> the trace only gains log lines.\<close>

lemma ApplyBlock_cases:
  assumes run: "ApplyBlock e state block w = (ra, blocka, wa)"
  obtains
    (invalid) err where "validate (conv e) state block = Some err" "wa = w" "blocka = block"
      "ra = Returned (State_zero, None, Some err)"
  | (executed) r w1 logs where "validate (conv e) state block = None"
      "execute e state block w = (r, w1)" "w_trace wa = w_trace w1 @ logs"
      "\<forall>ev \<in> set logs. \<not> isFinalizeBlock ev"
      "\<And>err. r = Returned (Inl err) \<Longrightarrow>
         ra = Returned (State_zero, None, Some err) \<and> blocka = block \<and> wa = w1"
proof (cases "validate (conv e) state block")
  case (Some err)
  with run show ?thesis by (intro invalid [of err]) (simp_all add: ApplyBlock_def)
next
  case None
  obtain r w1 where ex: "execute e state block w = (r, w1)"
    by (cases "execute e state block w")
  have "\<exists>logs. w_trace wa = w_trace w1 @ logs \<and> (\<forall>ev \<in> set logs. \<not> isFinalizeBlock ev)"
    using run
    by (auto simp: ApplyBlock_def None ex Let_def emit_trace
          split: outcome.splits sum.splits option.splits prod.splits if_splits)
  moreover have "\<And>err. r = Returned (Inl err) \<Longrightarrow>
         ra = Returned (State_zero, None, Some err) \<and> blocka = block \<and> wa = w1"
    using run by (simp add: ApplyBlock_def None ex)
  ultimately show ?thesis using None ex by (blast intro: executed)
qed

text \<open>
  Claim C5. Let the conversion to the consensus-layer block keep the number of
  transactions. If the application answered \<open>FinalizeBlock\<close> during \<open>execute\<close> with a
  response whose number of results is not the number of transactions of the block, then
  \<open>execute\<close> returns the length-mismatch error; and if that happened during
  \<open>ApplyBlock\<close>, then \<open>ApplyBlock\<close> returns that error with the zero state and no
  responses, and leaves the block as it was.
\<close>

theorem tx_results_length_mismatch:
  assumes keep: "\<forall>ab. ToABCIBlock (conv e) block = (Some ab, None) \<longrightarrow>
                    length (ab_Txs ab) = length (d_Txs (b_Data block))"
    and bad: "length (rf_TxResults fresp) \<noteq> length (d_Txs (b_Data block))"
  shows "(\<forall>r w' evs.
            execute e state block w = (r, w') \<and> w_trace w' = w_trace w @ evs
            \<and> EvFinalizeBlock req (Inr fresp) \<in> set evs \<longrightarrow>
            r = Returned (Inl (ErrTxResultsLength (length (d_Txs (b_Data block)))
                                 (length (rf_TxResults fresp)))))
       \<and> (\<forall>ra blocka wa evs.
            ApplyBlock e state block w = (ra, blocka, wa) \<and> w_trace wa = w_trace w @ evs
            \<and> EvFinalizeBlock req (Inr fresp) \<in> set evs \<longrightarrow>
            ra = Returned (State_zero, None,
                           Some (ErrTxResultsLength (length (d_Txs (b_Data block)))
                                   (length (rf_TxResults fresp))))
            \<and> blocka = block)"
proof -
  have exec: "r = Returned (Inl (ErrTxResultsLength (length (d_Txs (b_Data block)))
                                 (length (rf_TxResults fresp))))"
    if "execute e state block w = (r, w')" "w_trace w' = w_trace w @ evs"
       "EvFinalizeBlock req (Inr fresp) \<in> set evs" for r w' evs
    using execute_finalize_event [OF that] keep bad by auto
  have applied: "ra = Returned (State_zero, None,
                           Some (ErrTxResultsLength (length (d_Txs (b_Data block)))
                                   (length (rf_TxResults fresp))))
            \<and> blocka = block"
    if run: "ApplyBlock e state block w = (ra, blocka, wa)"
      and tr: "w_trace wa = w_trace w @ evs"
      and ev: "EvFinalizeBlock req (Inr fresp) \<in> set evs" for ra blocka wa evs
    using run
  proof (cases rule: ApplyBlock_cases)
    case (invalid err)
    with tr ev show ?thesis by simp
  next
    case (executed r w1 logs)
    from executed(2) obtain evsE where tE: "w_trace w1 = w_trace w @ evsE"
    proof (cases rule: execute_cases)
      case (bad_length isrs)
      then show ?thesis using that by simp
    next
      case (first_hash_error msg)
      then show ?thesis using that by blast
    next
      case (fraud_run isr w0)
      from fraud_run(4) show ?thesis
      proof (cases rule: executeFinalize_cases)
        case (captures req' fresp' ab bbr w2)
        from captures(7) show ?thesis
        proof (cases rule: executeCaptures_result)
          case (1 rC)
          have "\<exists>evsC. w_trace w1 = w_trace w2 @ evsC"
          proof (cases "d_RawRootsList (b_Data block)")
            case None
            from capturesFrom_none [OF fraud_run(1) 1(1) [unfolded None]] show ?thesis by blast
          next
            case (Some isrs)
            have "1 + length (capturePoints (d_Txs (b_Data block))
                    \<lparr>re_Height = Header_Height (sh_Header (b_SignedHeader block))\<rparr>)
                  \<le> length isrs"
              using fraud_run(2) [OF Some] by simp
            from capturesFrom_some [OF fraud_run(1) this 1(1) [unfolded Some]]
            show ?thesis by blast
          qed
          then show ?thesis using that captures(3) fraud_run(3) by auto
        qed
      qed (use that fraud_run(3) in auto)
    next
      case (plain_run w0)
      from plain_run(3) show ?thesis
      proof (cases rule: executeFinalize_cases)
        case (captures req' fresp' ab bbr w2)
        from captures(7) show ?thesis
        proof (cases rule: executeCaptures_result)
          case (1 rC)
          from 1(1) capturesFrom_disabled [OF plain_run(1)] have "w1 = w2" by simp
          then show ?thesis using that captures(3) plain_run(2) by auto
        qed
      qed (use that plain_run(2) in auto)
    qed
    with executed(3) tr have "evs = evsE @ logs" by simp
    with ev executed(4) have "EvFinalizeBlock req (Inr fresp) \<in> set evsE" by auto
    from exec [OF executed(2) tE this] executed(5) show ?thesis by blast
  qed
  from exec applied show ?thesis by blast
qed


section \<open>Fraud proofs\<close>

lemma capturePoints_nth:
  assumes "j < length txs + 2"
  shows "capturePoints txs ebr ! j =
           (if j = 0 then (None, None)
            else if j \<le> length txs then (Some (map (\<lambda>tx. \<lparr>rd_Tx = tx\<rparr>) (take j txs)), None)
            else (Some (map (\<lambda>tx. \<lparr>rd_Tx = tx\<rparr>) txs), Some ebr))"
proof (cases j)
  case 0
  then show ?thesis by (simp add: capturePoints_def)
next
  case (Suc j')
  with assms have "j' \<le> length txs" by simp
  then show ?thesis
    by (cases "j' < length txs") (simp_all add: Suc capturePoints_def nth_append)
qed

text \<open>
  Claim C1, as the code has it. Fraud proofs are enabled and the block brings the roots
  \<open>isrs\<close>. Let the hashes captured by a run of \<open>execute\<close> be numbered from 0 (the one
  before BeginBlock), and let the hash at a position \<open>k \<ge> 1\<close> differ from \<open>isrs[k]\<close>.
  Then it is the last hash captured, all hashes between position 1 and \<open>k\<close> equal their
  roots, and the first \<open>GenerateFraudProof\<close> call of the run is made with the
  BeginBlock request (hash of the block, the executor's chain id, the hash of the state's
  validators), the DeliverTx requests of the first \<open>k - 1\<close> transactions (no list at
  \<open>k = 1\<close>), and the EndBlock request exactly when \<open>k = len(Txs) + 2\<close>. What follows is
  \<open>fraudOutcome\<close>: the error of a failed call, the generation-failed error when the
  response has no proof, and otherwise the broadcast of the proof, with
  \<open>ErrFraudProofGenerated\<close> when the broadcast succeeded and the broadcast's error when it
  failed.
\<close>

theorem execute_fraud_proof:
  assumes en: "fraudProofsEnabled e"
    and some: "d_RawRootsList (b_Data block) = Some isrs"
    and run: "execute e state block w = (r, w')"
    and tr: "w_trace w' = w_trace w @ evs"
    and k1: "1 \<le> k" and klen: "k < length (captured evs)"
    and differ: "captured evs ! k \<noteq> isrs ! k"
  shows "Suc k = length (captured evs)
       \<and> (\<forall>j. 1 \<le> j \<and> j < k \<longrightarrow> captured evs ! j = isrs ! j)
       \<and> (\<exists>before beginBlockRequest reply rest err.
             evs = before
                   @ [EvGenerateFraudProof
                        \<lparr>gfp_BeginBlockRequest = beginBlockRequest,
                         gfp_DeliverTxRequests =
                           (if k = 1 then None
                            else Some (map (\<lambda>tx. \<lparr>rd_Tx = tx\<rparr>)
                                         (take (k - 1) (d_Txs (b_Data block))))),
                         gfp_EndBlockRequest =
                           (if k = length (d_Txs (b_Data block)) + 2
                            then Some \<lparr>re_Height = Header_Height (sh_Header (b_SignedHeader block))\<rparr>
                            else None)\<rparr> reply]
                   @ rest
           \<and> (\<forall>ev \<in> set before. \<not> isGenerateFraudProof ev)
           \<and> bbq_Hash beginBlockRequest = Block_Hash (conv e) block
           \<and> pb_ChainID (bbq_Header beginBlockRequest) = chainID e
           \<and> pb_ValidatorsHash (bbq_Header beginBlockRequest)
               = ValidatorSet_Hash (conv e) (st_Validators state)
           \<and> fraudOutcome reply rest err
           \<and> r = Returned (Inl err))"
  using run
proof (cases rule: execute_cases)
  case (bad_length isrs')
  with tr have "length (captured evs) = 0" by simp
  with klen show ?thesis by simp
next
  case (first_hash_error msg)
  with tr have "evs = [EvSetResponseCallback, EvGetAppHash (Inl msg)]" by simp
  then have "length (captured evs) = 0" by simp
  with klen show ?thesis by simp
next
  case (plain_run w1)
  with en show ?thesis by simp
next
  case (fraud_run isr w1)
  from fraud_run(2) [OF some] have len: "length isrs = length (d_Txs (b_Data block)) + 3" .
  from fraud_run(4) show ?thesis
  proof (cases rule: executeFinalize_cases)
    case early
    with fraud_run(3) tr have "evs = [EvSetResponseCallback, EvGetAppHash (Inr isr)]" by simp
    then have "length (captured evs) = 1" by simp
    with klen k1 show ?thesis by simp
  next
    case (finalize_error req msg)
    with fraud_run(3) tr
    have "evs = [EvSetResponseCallback, EvGetAppHash (Inr isr)]
                @ [EvFinalizeBlock req (Inl msg), EvLog Error ''error in proxyAppConn.FinalizeBlock'']"
      by simp
    then have "length (captured evs) = 1" by simp
    with klen k1 show ?thesis by simp
  next
    case (length_mismatch req fresp ab)
    with fraud_run(3) tr
    have "evs = [EvSetResponseCallback, EvGetAppHash (Inr isr)]
                @ [EvFinalizeBlock req (Inr fresp), EvLog Info ''finalized block'']"
      by simp
    then have "length (captured evs) = 1" by simp
    with klen k1 show ?thesis by simp
  next
    case (captures req fresp ab bbr w2)
    let ?ebr = "\<lparr>re_Height = Header_Height (sh_Header (b_SignedHeader block))\<rparr>"
    let ?txs = "d_Txs (b_Data block)"
    let ?ps = "capturePoints ?txs ?ebr"
    from captures(7) show ?thesis
    proof (cases rule: executeCaptures_result)
      case (1 rC)
      have bound: "1 + length ?ps \<le> length isrs" by (simp add: len)
      from capturesFrom_some [OF en bound 1(1) [unfolded some]] obtain evsC where
        tC: "w_trace w' = w_trace w2 @ evsC"
        and chk: "checkedRun isrs bbr ?ps [isr] 1 evsC rC"
        by blast
      note parts = chk [unfolded checkedRun_def]
      have l: "length (captured evsC) \<le> length ?txs + 2"
        using parts [THEN conjunct1] by simp
      have match: "\<forall>j. Suc j < length (captured evsC) \<longrightarrow> captured evsC ! j = isrs ! (1 + j)"
        by (rule parts [THEN conjunct2, THEN conjunct2, THEN conjunct2, THEN conjunct2,
              THEN conjunct1])
      have bad: "\<forall>k < length (captured evsC). captured evsC ! k \<noteq> isrs ! (1 + k) \<longrightarrow>
            (\<exists>before reply rest err.
               evsC = before
                     @ [EvGenerateFraudProof
                          \<lparr>gfp_BeginBlockRequest = bbr,
                           gfp_DeliverTxRequests = fst (?ps ! k),
                           gfp_EndBlockRequest =
                             (if fst (?ps ! k) \<noteq> None then snd (?ps ! k) else None)\<rparr> reply]
                     @ rest
               \<and> (\<forall>ev \<in> set before. \<not> isGenerateFraudProof ev)
               \<and> fraudOutcome reply rest err
               \<and> rC = Returned (Inl err))"
        by (rule parts [THEN conjunct2, THEN conjunct2, THEN conjunct2, THEN conjunct2,
              THEN conjunct2, THEN conjunct2])
      let ?pre = "[EvSetResponseCallback, EvGetAppHash (Inr isr),
                   EvFinalizeBlock req (Inr fresp), EvLog Info ''finalized block'',
                   EvLog Info ''executed block'']"
      have evs: "evs = ?pre @ evsC"
        using tC captures(3) fraud_run(3) tr by simp
      have cap: "captured evs = isr # captured evsC" by (simp add: evs)
      from k1 obtain k' where k': "k = Suc k'" by (cases k) simp_all
      from klen differ have kC: "k' < length (captured evsC)"
        and dC: "captured evsC ! k' \<noteq> isrs ! (1 + k')"
        by (simp_all add: cap k')
      from match dC have last: "\<not> Suc k' < length (captured evsC)" by blast
      with kC have c1: "Suc k = length (captured evs)" by (simp add: cap k')
      have c2: "\<forall>j. 1 \<le> j \<and> j < k \<longrightarrow> captured evs ! j = isrs ! j"
      proof (intro allI impI)
        fix j assume j: "1 \<le> j \<and> j < k"
        then obtain j' where j': "j = Suc j'" by (cases j) simp_all
        with j k' kC have "Suc j' < length (captured evsC)" by simp
        with match have "captured evsC ! j' = isrs ! (1 + j')" by blast
        then show "captured evs ! j = isrs ! j" by (simp add: cap j')
      qed
      from bad kC dC obtain beforeC reply rest err where
        eC: "evsC = beforeC
                     @ [EvGenerateFraudProof
                          \<lparr>gfp_BeginBlockRequest = bbr,
                           gfp_DeliverTxRequests = fst (?ps ! k'),
                           gfp_EndBlockRequest =
                             (if fst (?ps ! k') \<noteq> None then snd (?ps ! k') else None)\<rparr> reply]
                     @ rest"
        and bC: "\<forall>ev \<in> set beforeC. \<not> isGenerateFraudProof ev"
        and out: "fraudOutcome reply rest err"
        and rC: "rC = Returned (Inl err)"
        by blast
      from kC l have "k' < length ?txs + 2" by simp
      note point = capturePoints_nth [OF this, of ?ebr]
      have d: "fst (?ps ! k') =
                 (if k = 1 then None
                  else Some (map (\<lambda>tx. \<lparr>rd_Tx = tx\<rparr>) (take (k - 1) ?txs)))"
        using \<open>k' < length ?txs + 2\<close>
        by (cases "k' \<le> length ?txs") (simp_all add: point k')
      have eb: "(if fst (?ps ! k') \<noteq> None then snd (?ps ! k') else None) =
                 (if k = length ?txs + 2 then Some ?ebr else None)"
        using \<open>k' < length ?txs + 2\<close>
        by (cases "k' \<le> length ?txs") (auto simp: point k')
      have "evs = (?pre @ beforeC)
                   @ [EvGenerateFraudProof
                        \<lparr>gfp_BeginBlockRequest = bbr,
                         gfp_DeliverTxRequests =
                           (if k = 1 then None
                            else Some (map (\<lambda>tx. \<lparr>rd_Tx = tx\<rparr>) (take (k - 1) ?txs))),
                         gfp_EndBlockRequest =
                           (if k = length ?txs + 2 then Some ?ebr else None)\<rparr> reply]
                   @ rest"
        unfolding evs by (subst eC) (simp only: eb, simp only: d append_assoc)
      moreover have "\<forall>ev \<in> set (?pre @ beforeC). \<not> isGenerateFraudProof ev"
        using bC by simp
      moreover have "r = Returned (Inl err)" using rC 1(3) by blast
      ultimately have c3: "\<exists>before beginBlockRequest reply rest err.
             evs = before
                   @ [EvGenerateFraudProof
                        \<lparr>gfp_BeginBlockRequest = beginBlockRequest,
                         gfp_DeliverTxRequests =
                           (if k = 1 then None
                            else Some (map (\<lambda>tx. \<lparr>rd_Tx = tx\<rparr>) (take (k - 1) ?txs))),
                         gfp_EndBlockRequest =
                           (if k = length ?txs + 2 then Some ?ebr else None)\<rparr> reply]
                   @ rest
           \<and> (\<forall>ev \<in> set before. \<not> isGenerateFraudProof ev)
           \<and> bbq_Hash beginBlockRequest = Block_Hash (conv e) block
           \<and> pb_ChainID (bbq_Header beginBlockRequest) = chainID e
           \<and> pb_ValidatorsHash (bbq_Header beginBlockRequest)
               = ValidatorSet_Hash (conv e) (st_Validators state)
           \<and> fraudOutcome reply rest err
           \<and> r = Returned (Inl err)"
        using captures(4,5,6) out by blast
      from c1 c2 c3 show ?thesis by blast
    qed
  qed
qed


section \<open>The theorems on the examples\<close>

lemma env_no_results_sel:
  "env_GetAppHash env_no_results n = (Inr [of_nat n], n + 1)"
  "env_FinalizeBlock env_no_results req n = (Inr response_no_results, n)"
  by (simp_all add: env_no_results_def env0_def)

lemma env_no_broadcast_sel:
  "env_GetAppHash env_no_broadcast n = (Inr [of_nat n], n + 1)"
  "env_FinalizeBlock env_no_broadcast req n =
     (Inr \<lparr>rf_Events = [], rf_TxResults = map (\<lambda>tx. Some txResult0) (fb_Txs req),
           rf_ValidatorUpdates = [], rf_ConsensusParamUpdates = None,
           rf_AppHash = [of_nat n]\<rparr>, n)"
  "env_GenerateFraudProof env_no_broadcast greq n = (Inr (Some [42]), n)"
  "env_Broadcast env_no_broadcast fp n = (Some ''no peers'', n)"
  by (simp_all add: env_no_broadcast_def env0_def)

lemmas example_defs =
  run_defs executor0_sel env0_sel codec0_sel codec0_commit codec0_block
  state0_def block0_def header0_def world0_def valset0_def validator0_def

text \<open>Claim C9 on a block with one transaction and four matching roots: positions 1, 2
  and 3 are read.\<close>

theorem execute_reads_in_bounds_witness:
  "\<exists>r w'. execute (executor0 True env0) state0 (block0 2 [[1]] (Some [[0], [1], [2], [3]])) world0
             = (r, w')
        \<and> r \<noteq> Panicked IndexOutOfRange
        \<and> readIndices (w_trace w') = [1, 2, 3]"
proof -
  obtain r w' where run:
    "execute (executor0 True env0) state0 (block0 2 [[1]] (Some [[0], [1], [2], [3]])) world0
       = (r, w')"
    and reads: "readIndices (w_trace w') = [1, 2, 3]"
    by (simp add: example_defs)
  have en: "fraudProofsEnabled (executor0 True env0)" by (simp add: executor0_sel)
  have some: "d_RawRootsList (b_Data (block0 2 [[1]] (Some [[0], [1], [2], [3]])))
                = Some [[0], [1], [2], [3]]"
    by (simp add: block0_def)
  from execute_reads_in_bounds [OF en some run] have "r \<noteq> Panicked IndexOutOfRange" by blast
  with run reads show ?thesis by blast
qed

text \<open>Claim C5 on a block with one transaction and an application that returns no
  result.\<close>

theorem tx_results_length_mismatch_witness:
  "(\<exists>w'. execute (executor0 False env_no_results) state0 (block0 2 [[1]] None) world0
            = (Returned (Inl (ErrTxResultsLength 1 0)), w'))
 \<and> (\<exists>wa. ApplyBlock (executor0 False env_no_results) state0 (block0 2 [[1]] None) world0
            = (Returned (State_zero, None, Some (ErrTxResultsLength 1 0)),
               block0 2 [[1]] None, wa))"
proof -
  let ?e = "executor0 False env_no_results"
  let ?b = "block0 2 [[1]] None"
  have keep: "\<forall>ab. ToABCIBlock (conv ?e) ?b = (Some ab, None) \<longrightarrow>
                    length (ab_Txs ab) = length (d_Txs (b_Data ?b))"
    by (auto simp: executor0_sel codec0_block)
  have bad: "length (rf_TxResults response_no_results) \<noteq> length (d_Txs (b_Data ?b))"
    by (simp add: response_no_results_def block0_def)
  obtain r w' req where run: "execute ?e state0 ?b world0 = (r, w')"
    and tr: "w_trace w' = w_trace world0
               @ [EvSetResponseCallback, EvFinalizeBlock req (Inr response_no_results),
                  EvLog Info ''finalized block'']"
    by (simp add: example_defs env_no_results_sel response_no_results_def)
  have valid: "validate codec0 state0 ?b = None"
    by (simp add: validate_def codec0_sel state0_def block0_def header0_def Header_Height_def
          word_sless_alt word_sle_eq)
  note inst = tx_results_length_mismatch [OF keep bad, of state0 world0 req]
  have r: "r = Returned (Inl (ErrTxResultsLength 1 0))"
    using inst [THEN conjunct1] run tr
    by (auto simp: response_no_results_def block0_def)
  obtain ra blocka wa where app: "ApplyBlock ?e state0 ?b world0 = (ra, blocka, wa)"
    and wa: "wa = w'"
    by (simp add: ApplyBlock_def valid run r executor0_sel)
  have "ra = Returned (State_zero, None, Some (ErrTxResultsLength 1 0)) \<and> blocka = ?b"
    using inst [THEN conjunct2] app tr wa
    by (auto simp: response_no_results_def block0_def)
  with r show ?thesis using run app by blast
qed


text \<open>Claim C1 on the block \<open>[h0, h1, hX, h3]\<close> with one transaction: the hash after
  the transaction differs, the request carries the one DeliverTx request and no EndBlock
  request, the proof is broadcast.\<close>

theorem execute_fraud_proof_witness:
  "\<exists>w'. execute (executor0 True env0) state0 (block0 2 [[1]] (Some [[0], [1], [7], [3]])) world0
           = (Returned (Inl ErrFraudProofGenerated), w')
      \<and> captured (w_trace w') = [[0], [1], [2]]
      \<and> (\<exists>before beginBlockRequest reply rest err.
             w_trace w' = before
                   @ [EvGenerateFraudProof
                        \<lparr>gfp_BeginBlockRequest = beginBlockRequest,
                         gfp_DeliverTxRequests = Some [\<lparr>rd_Tx = [1]\<rparr>],
                         gfp_EndBlockRequest = None\<rparr> reply]
                   @ rest
           \<and> fraudOutcome reply rest err
           \<and> ErrFraudProofGenerated = err)"
proof -
  let ?e = "executor0 True env0"
  let ?b = "block0 2 [[1]] (Some [[0], [1], [7], [3]])"
  obtain w' where run: "execute ?e state0 ?b world0 = (Returned (Inl ErrFraudProofGenerated), w')"
    and cap: "captured (w_trace w') = [[0], [1], [2]]"
    by (simp add: example_defs)
  have en: "fraudProofsEnabled ?e" by (simp add: executor0_sel)
  have some: "d_RawRootsList (b_Data ?b) = Some [[0], [1], [7], [3]]"
    by (simp add: block0_def)
  have tr: "w_trace w' = w_trace world0 @ w_trace w'" by (simp add: world0_def)
  have txs: "d_Txs (b_Data ?b) = [[1]]" by (simp add: block0_def)
  from execute_fraud_proof [OF en some run tr, of 2]
  have "\<exists>before beginBlockRequest reply rest err.
             w_trace w' = before
                   @ [EvGenerateFraudProof
                        \<lparr>gfp_BeginBlockRequest = beginBlockRequest,
                         gfp_DeliverTxRequests = Some [\<lparr>rd_Tx = [1]\<rparr>],
                         gfp_EndBlockRequest = None\<rparr> reply]
                   @ rest
           \<and> fraudOutcome reply rest err
           \<and> ErrFraudProofGenerated = err"
    by (simp add: cap txs) blast
  with run cap show ?thesis by blast
qed

text \<open>
  The claim as the spec words it promises \<open>ErrFraudProofGenerated\<close> at the first
  differing position. On the same block, with a fraud-proof service whose broadcast
  fails, the hash at position 2 differs, the proof is generated and handed to the
  service, and \<open>execute\<close> fails with the broadcast error instead.
\<close>

theorem execute_fraud_broadcast_counterexample:
  "fraudProofsEnabled (executor0 True env_no_broadcast)
   \<and> d_RawRootsList (b_Data (block0 2 [[1]] (Some [[0], [1], [7], [3]])))
       = Some [[0], [1], [7], [3]]
   \<and> captured (w_trace (snd (execute (executor0 True env_no_broadcast) state0
                                 (block0 2 [[1]] (Some [[0], [1], [7], [3]])) world0)))
       = [[0], [1], [2]]
   \<and> last (w_trace (snd (execute (executor0 True env_no_broadcast) state0
                             (block0 2 [[1]] (Some [[0], [1], [7], [3]])) world0)))
       = EvBroadcast [42] (Some ''no peers'')
   \<and> fst (execute (executor0 True env_no_broadcast) state0
              (block0 2 [[1]] (Some [[0], [1], [7], [3]])) world0)
       = Returned (Inl (ErrBroadcastFraudProof (External ''no peers'')))
   \<and> fst (execute (executor0 True env_no_broadcast) state0
              (block0 2 [[1]] (Some [[0], [1], [7], [3]])) world0)
       \<noteq> Returned (Inl ErrFraudProofGenerated)"
  by (simp add: example_defs env_no_broadcast_sel)

section \<open>Properties of ApplyBlock\<close>




section \<open>Properties of Commit\<close>

lemma fromRollkitTxs_id [simp]: "fromRollkitTxs txs = txs"
  by (simp add: fromRollkitTxs_def)









end
